theory Spec2Isabelle
  imports Complex_Main "HOL-Library.Log_Nat" "HOL-Library.Word"
begin

section \<open>JavaScript numbers\<close>

text \<open>
  The service is TypeScript: every \<^verbatim>\<open>number\<close> is an IEEE-754 binary64 value. The
  columns the engine computes with (prices, seat counts, point amounts, ids) are
  integer columns, and on integers of magnitude below \<open>2^53\<close> the operations
  \<^verbatim>\<open>+\<close>, \<^verbatim>\<open>-\<close>, \<^verbatim>\<open>*\<close>, \<^verbatim>\<open>Math.min\<close>, \<^verbatim>\<open>Math.max\<close> and \<^verbatim>\<open>Math.abs\<close> are exact, so they are
  modelled on \<open>int\<close>. The one place where a non-integer arises is the percentage
  voucher, \<^verbatim>\<open>Math.floor(subtotal * (voucher.discountAmount / 100))\<close>: the quotient and
  the product are each rounded to the nearest double (ties to even). \<open>toDouble\<close> is
  that rounding on the rationals, for values in the normal range of binary64 (which
  covers every quotient and product of two integer columns).
\<close>

definition pow2 :: "int \<Rightarrow> rat" where
  "pow2 e = (if 0 \<le> e then 2 ^ nat e else 1 / 2 ^ nat (- e))"

definition roundTiesToEven :: "rat \<Rightarrow> int" where
  "roundTiesToEven x =
     (let f = \<lfloor>x\<rfloor>; r = x - of_int f
      in if r < 1 / 2 then f else if 1 / 2 < r then f + 1 else if even f then f else f + 1)"

text \<open>The exponent \<open>e\<close> with \<open>2^e \<le> x < 2^(e+1)\<close>, for \<open>x > 0\<close>.\<close>

definition binExponent :: "rat \<Rightarrow> int" where
  "binExponent x =
     (let (p, q) = quotient_of x; b = bitlen p - bitlen q
      in if pow2 b \<le> x then b else b - 1)"

text \<open>Rounding to 53 significant bits, nearest, ties to even.\<close>

definition toDouble :: "rat \<Rightarrow> rat" where
  "toDouble x =
     (if x = 0 then 0
      else let e = binExponent \<bar>x\<bar> - 52
           in sgn x * of_int (roundTiesToEven (\<bar>x\<bar> / pow2 e)) * pow2 e)"

text \<open>\<^verbatim>\<open>a / b\<close> and \<^verbatim>\<open>a * b\<close> on doubles (\<open>b \<noteq> 0\<close> for the quotient).\<close>

definition jsDiv :: "rat \<Rightarrow> rat \<Rightarrow> rat" where
  "jsDiv a b = toDouble (a / b)"

definition jsMul :: "rat \<Rightarrow> rat \<Rightarrow> rat" where
  "jsMul a b = toDouble (a * b)"

section \<open>Data model\<close>

text \<open>
  The rows of the Prisma models the engine reads and writes, with the columns it
  touches. A \<^verbatim>\<open>Date\<close> is its time value (milliseconds since the epoch).
\<close>

type_synonym date = int

datatype TransactionStatus =
  WAITING_PAYMENT | WAITING_CONFIRMATION | DONE | REJECTED | EXPIRED | CANCELLED

datatype DiscountType = PERCENTAGE | FIXED

datatype PointType = EARNED | USED

datatype Role = CUSTOMER | ORGANIZER

record TicketType =
  tt_id :: int
  tt_eventId :: int
  tt_price :: int
  tt_totalSeat :: int
  tt_availableSeat :: int
  tt_sold :: int

record Event =
  ev_id :: int
  ev_organizerId :: int
  ev_title :: string
  ev_endDate :: "date option"

record Organizer =
  org_id :: int
  org_userId :: int

record Voucher =
  v_id :: int
  v_eventId :: int
  v_code :: string
  v_discountAmount :: int
  v_discountType :: DiscountType
  v_startDate :: date
  v_endDate :: date
  v_usedCount :: int
  v_usageLimit :: int

record Coupon =
  c_id :: int
  c_userId :: int
  c_code :: string
  c_discountAmount :: int
  c_expiredAt :: date
  c_isUsed :: bool

record User =
  u_id :: int
  u_role :: Role
  u_point :: int

record Point =
  p_userId :: int
  p_amount :: int
  p_description :: string
  p_type :: PointType
  p_createdAt :: date
  p_expiredAt :: "date option"

record Transaction =
  t_id :: int
  t_userId :: int
  t_eventId :: int
  t_ticketTypeId :: int
  t_voucherId :: "int option"
  t_couponId :: "int option"
  t_ticketQty :: int
  t_totalPrice :: int
  t_pointsUsed :: int
  t_finalPrice :: int
  t_expiredAt :: date
  t_status :: TransactionStatus
  t_paymentProof :: "string option"
  t_rejectionReason :: "string option"
  t_updatedAt :: date

record Attendee =
  a_transactionId :: int
  a_userId :: int
  a_eventId :: int
  a_ticketTypeId :: int
  a_qrToken :: string
  a_checkedIn :: bool
  a_checkedInAt :: "date option"

text \<open>The database: one table per model, rows in insertion order.\<close>

record DB =
  ticketTypes :: "TicketType list"
  events :: "Event list"
  organizers :: "Organizer list"
  vouchers :: "Voucher list"
  coupons :: "Coupon list"
  users :: "User list"
  points :: "Point list"
  transactions :: "Transaction list"
  attendees :: "Attendee list"

text \<open>
  \<^verbatim>\<open>ApiError(message, status)\<close> is the service's own exception; \<open>PrismaError\<close> is the
  client's (\<^verbatim>\<open>P2025\<close>: the row of an \<^verbatim>\<open>update\<close> does not exist; \<^verbatim>\<open>P2002\<close>: a unique
  constraint is violated).
\<close>

datatype error = ApiError string nat | PrismaError string

section \<open>Prisma operations\<close>

text \<open>
  \<^verbatim>\<open>findUnique\<close> and \<^verbatim>\<open>findFirst\<close> are \<open>find\<close> on the table. \<^verbatim>\<open>update\<close> addresses a row
  by a unique key, the row that \<^verbatim>\<open>findUnique\<close> returns for that key, and throws when
  no row has it; \<^verbatim>\<open>deleteMany\<close> removes every row that matches; \<^verbatim>\<open>create\<close> appends.
\<close>

fun updateFirst :: "('a \<Rightarrow> bool) \<Rightarrow> ('a \<Rightarrow> 'a) \<Rightarrow> 'a list \<Rightarrow> 'a list" where
  "updateFirst P f [] = []"
| "updateFirst P f (r # rows) = (if P r then f r # rows else r # updateFirst P f rows)"

definition update :: "('a \<Rightarrow> bool) \<Rightarrow> ('a \<Rightarrow> 'a) \<Rightarrow> 'a list \<Rightarrow> error + 'a list" where
  "update P f rows =
     (case find P rows of
        None \<Rightarrow> Inl (PrismaError ''P2025'')
      | Some r \<Rightarrow> Inr (updateFirst P f rows))"

definition deleteMany :: "('a \<Rightarrow> bool) \<Rightarrow> 'a list \<Rightarrow> 'a list" where
  "deleteMany P rows = filter (\<lambda>r. \<not> P r) rows"

definition create :: "'a \<Rightarrow> 'a list \<Rightarrow> 'a list" where
  "create r rows = rows @ [r]"

text \<open>The next value of an autoincrement key.\<close>

definition nextId :: "int list \<Rightarrow> int" where
  "nextId ids = 1 + fold max ids 0"

text \<open>\<^verbatim>\<open>description: { contains: s }\<close>: \<open>s\<close> occurs in the text.\<close>

fun strContains :: "string \<Rightarrow> string \<Rightarrow> bool" where
  "strContains [] s = (s = [])"
| "strContains (c # cs) s = (if take (length s) (c # cs) = s then True else strContains cs s)"

section \<open>Point ledger: \<^verbatim>\<open>calculateUserPointBalance\<close> (point.utils.ts)\<close>

definition unexpired :: "date \<Rightarrow> Point \<Rightarrow> bool" where
  "unexpired now p = (case p_expiredAt p of None \<Rightarrow> True | Some e \<Rightarrow> now < e)"

text \<open>
  The loop over \<^verbatim>\<open>earnedPoints\<close>, with its two mutable variables \<^verbatim>\<open>totalUsed\<close> and
  \<^verbatim>\<open>currentBalance\<close> as arguments.
\<close>

fun fifoLoop :: "date \<Rightarrow> Point list \<Rightarrow> int \<Rightarrow> int \<Rightarrow> int" where
  "fifoLoop now [] totalUsed currentBalance = currentBalance"
| "fifoLoop now (point # rest) totalUsed currentBalance =
     (let available = p_amount point;
          consumed = (if 0 < totalUsed then min available totalUsed else 0);
          available' = available - consumed;
          totalUsed' = totalUsed - consumed
      in fifoLoop now rest totalUsed'
           (if 0 < available' \<and> unexpired now point
            then currentBalance + available' else currentBalance))"

text \<open>
  \<^verbatim>\<open>findMany({where: {userId, type: "EARNED"}, orderBy: {createdAt: "asc"}})\<close>; rows
  with equal \<^verbatim>\<open>createdAt\<close> stay in table order.
\<close>

definition earnedPoints :: "int \<Rightarrow> Point list \<Rightarrow> Point list" where
  "earnedPoints userId tbl =
     sort_key p_createdAt (filter (\<lambda>p. p_userId p = userId \<and> p_type p = EARNED) tbl)"

text \<open>\<^verbatim>\<open>aggregate({where: {userId, type: "USED"}, _sum: {amount: true}})\<close>, \<^verbatim>\<open>|| 0\<close> applied.\<close>

definition usedSum :: "int \<Rightarrow> Point list \<Rightarrow> int" where
  "usedSum userId tbl =
     sum_list (map p_amount (filter (\<lambda>p. p_userId p = userId \<and> p_type p = USED) tbl))"

definition calculateUserPointBalance :: "int \<Rightarrow> date \<Rightarrow> Point list \<Rightarrow> int" where
  "calculateUserPointBalance userId now tbl =
     fifoLoop now (earnedPoints userId tbl) \<bar>usedSum userId tbl\<bar> 0"

section \<open>\<^verbatim>\<open>TransactionService.createTransaction\<close>\<close>

record CreateTransactionBody =
  b_ticketTypeId :: int
  b_quantity :: int
  b_voucherCode :: "string option"
  b_couponCode :: "string option"
  b_pointsToUse :: "int option"

text \<open>
  JavaScript truthiness, as \<^verbatim>\<open>if (voucherCode)\<close> and \<^verbatim>\<open>if (voucherId)\<close> use it: an
  absent value, the empty string and the number 0 are falsy.
\<close>

definition truthyStr :: "string option \<Rightarrow> bool" where
  "truthyStr s = (case s of None \<Rightarrow> False | Some x \<Rightarrow> x \<noteq> [])"

definition truthyNum :: "int option \<Rightarrow> bool" where
  "truthyNum n = (case n of None \<Rightarrow> False | Some x \<Rightarrow> x \<noteq> 0)"

text \<open>Step 3, the discount of a voucher that was found (lines 106-112).\<close>

definition voucherDiscountOf :: "int \<Rightarrow> Voucher \<Rightarrow> int" where
  "voucherDiscountOf subtotal voucher =
     (if v_discountType voucher = PERCENTAGE
      then \<lfloor>jsMul (of_int subtotal) (jsDiv (of_int (v_discountAmount voucher)) 100)\<rfloor>
      else min (v_discountAmount voucher) subtotal)"

text \<open>Step 3 (lines 85-113): the voucher discount and the voucher's id.\<close>

definition applyVoucher ::
  "DB \<Rightarrow> date \<Rightarrow> int \<Rightarrow> string option \<Rightarrow> int \<Rightarrow> error + (int \<times> int option)" where
  "applyVoucher db now eventId voucherCode subtotal =
     (if truthyStr voucherCode then
        (case find (\<lambda>v. v_eventId v = eventId \<and> Some (v_code v) = voucherCode
                        \<and> v_startDate v \<le> now \<and> now \<le> v_endDate v) (vouchers db) of
           None \<Rightarrow> Inl (ApiError ''Invalid or expired voucher'' 400)
         | Some voucher \<Rightarrow>
             if v_usageLimit voucher \<le> v_usedCount voucher
             then Inl (ApiError ''Voucher usage limit exceeded'' 400)
             else Inr (voucherDiscountOf subtotal voucher, Some (v_id voucher)))
      else Inr (0, None))"

text \<open>
  Step 4 (lines 115-150): the coupon discount, out of what the voucher left, and the
  coupon's id.
\<close>

definition applyCoupon ::
  "DB \<Rightarrow> date \<Rightarrow> int \<Rightarrow> string option \<Rightarrow> int \<Rightarrow> error + (int \<times> int option)" where
  "applyCoupon db now userId couponCode remaining =
     (if truthyStr couponCode then
        (case find (\<lambda>c. c_userId c = userId \<and> Some (c_code c) = couponCode
                        \<and> now \<le> c_expiredAt c \<and> \<not> c_isUsed c) (coupons db) of
           None \<Rightarrow> Inl (ApiError ''Invalid or expired coupon'' 400)
         | Some coupon \<Rightarrow>
             if map_option u_role (find (\<lambda>u. u_id u = userId) (users db)) = Some ORGANIZER
             then Inl (ApiError ''Referral reward is only available for customers'' 400)
             else Inr (min (c_discountAmount coupon) remaining, Some (c_id coupon)))
      else Inr (0, None))"

text \<open>The local variables of steps 2 to 6.\<close>

record Pricing =
  pr_subtotal :: int
  pr_voucherDiscount :: int
  pr_voucherId :: "int option"
  pr_couponDiscount :: int
  pr_couponId :: "int option"
  pr_pointsToDeduct :: int
  pr_finalPrice :: int

definition pointsRequested :: "CreateTransactionBody \<Rightarrow> int" where
  "pointsRequested body = (case b_pointsToUse body of None \<Rightarrow> 0 | Some n \<Rightarrow> n)"

text \<open>
  Steps 2 to 6 (lines 81-184): nothing is written yet. The message of the
  insufficient-points error carries the balance in the source; the model keeps its
  fixed part.
\<close>

definition priceOrder ::
  "DB \<Rightarrow> date \<Rightarrow> int \<Rightarrow> int \<Rightarrow> CreateTransactionBody \<Rightarrow> TicketType \<Rightarrow> error + Pricing" where
  "priceOrder db now userId eventId body ticketType =
     (let subtotal = tt_price ticketType * b_quantity body in
      case applyVoucher db now eventId (b_voucherCode body) subtotal of
        Inl e \<Rightarrow> Inl e
      | Inr (voucherDiscount, voucherId) \<Rightarrow>
          (case applyCoupon db now userId (b_couponCode body) (subtotal - voucherDiscount) of
             Inl e \<Rightarrow> Inl e
           | Inr (couponDiscount, couponId) \<Rightarrow>
               (case find (\<lambda>u. u_id u = userId) (users db) of
                  None \<Rightarrow> Inl (ApiError ''User not found'' 404)
                | Some user \<Rightarrow>
                    (let availablePoints = calculateUserPointBalance userId now (points db);
                         pointsToUse = pointsRequested body
                     in if availablePoints < pointsToUse
                        then Inl (ApiError ''Insufficient valid points'' 400)
                        else
                          (let pointsToDeduct =
                                 min pointsToUse
                                   (min availablePoints (subtotal - voucherDiscount - couponDiscount))
                           in Inr \<lparr>pr_subtotal = subtotal,
                                   pr_voucherDiscount = voucherDiscount,
                                   pr_voucherId = voucherId,
                                   pr_couponDiscount = couponDiscount,
                                   pr_couponId = couponId,
                                   pr_pointsToDeduct = pointsToDeduct,
                                   pr_finalPrice =
                                     max 0 (subtotal - voucherDiscount - couponDiscount
                                              - pointsToDeduct)\<rparr>)))))"

text \<open>
  Steps 7 to 11 (lines 186-276): the writes. The deadline is
  \<^verbatim>\<open>setHours(getHours() + 2)\<close>, two hours later (7200000 ms).
\<close>

definition commitOrder ::
  "DB \<Rightarrow> date \<Rightarrow> int \<Rightarrow> int \<Rightarrow> CreateTransactionBody \<Rightarrow> string \<Rightarrow> Pricing
     \<Rightarrow> error + (Transaction \<times> DB)" where
  "commitOrder db now userId eventId body title pr =
     (case update (\<lambda>tt. tt_id tt = b_ticketTypeId body)
             (\<lambda>tt. tt\<lparr>tt_availableSeat := tt_availableSeat tt - b_quantity body,
                        tt_sold := tt_sold tt + b_quantity body\<rparr>) (ticketTypes db) of
        Inl e \<Rightarrow> Inl e
      | Inr tts \<Rightarrow>
     (case (if truthyNum (pr_voucherId pr)
            then update (\<lambda>v. Some (v_id v) = pr_voucherId pr)
                   (\<lambda>v. v\<lparr>v_usedCount := v_usedCount v + 1\<rparr>) (vouchers db)
            else Inr (vouchers db)) of
        Inl e \<Rightarrow> Inl e
      | Inr vs \<Rightarrow>
     (case (if truthyNum (pr_couponId pr)
            then update (\<lambda>c. Some (c_id c) = pr_couponId pr)
                   (\<lambda>c. c\<lparr>c_isUsed := True\<rparr>) (coupons db)
            else Inr (coupons db)) of
        Inl e \<Rightarrow> Inl e
      | Inr cs \<Rightarrow>
     (case (if 0 < pr_pointsToDeduct pr
            then update (\<lambda>u. u_id u = userId)
                   (\<lambda>u. u\<lparr>u_point := u_point u - pr_pointsToDeduct pr\<rparr>) (users db)
            else Inr (users db)) of
        Inl e \<Rightarrow> Inl e
      | Inr us \<Rightarrow>
          (let ps = (if 0 < pr_pointsToDeduct pr
                     then create \<lparr>p_userId = userId,
                                  p_amount = - pr_pointsToDeduct pr,
                                  p_description = ''Used for transaction on event: '' @ title,
                                  p_type = USED,
                                  p_createdAt = now,
                                  p_expiredAt = None\<rparr> (points db)
                     else points db);
               newTransaction =
                 \<lparr>t_id = nextId (map t_id (transactions db)),
                  t_userId = userId,
                  t_eventId = eventId,
                  t_ticketTypeId = b_ticketTypeId body,
                  t_voucherId = pr_voucherId pr,
                  t_couponId = pr_couponId pr,
                  t_ticketQty = b_quantity body,
                  t_totalPrice = pr_subtotal pr,
                  t_pointsUsed = pr_pointsToDeduct pr,
                  t_finalPrice = pr_finalPrice pr,
                  t_expiredAt = now + 7200000,
                  t_status = WAITING_PAYMENT,
                  t_paymentProof = None,
                  t_rejectionReason = None,
                  t_updatedAt = now\<rparr>
           in Inr (newTransaction,
                   db\<lparr>ticketTypes := tts, vouchers := vs, coupons := cs, users := us,
                      points := ps,
                      transactions := create newTransaction (transactions db)\<rparr>))))))"

text \<open>
  The self-purchase guard (lines 63-75): \<^verbatim>\<open>if (event.organizerId)\<close> is truthiness of
  a number.
\<close>

definition ownEvent :: "DB \<Rightarrow> int \<Rightarrow> Event \<Rightarrow> bool" where
  "ownEvent db userId event =
     (if ev_organizerId event = 0 then False
      else (case find (\<lambda>organizer. org_id organizer = ev_organizerId event) (organizers db) of
              None \<Rightarrow> False
            | Some organizer \<Rightarrow> org_userId organizer = userId))"

text \<open>
  The callback of \<^verbatim>\<open>prisma.$transaction\<close> (lines 45-276). \<^verbatim>\<open>include: {event: true}\<close>
  joins the ticket type's event, a required relation: the foreign key excludes the
  branch where it is missing, which the model keeps as an error.
\<close>

definition createTransactionTx ::
  "DB \<Rightarrow> date \<Rightarrow> int \<Rightarrow> int \<Rightarrow> CreateTransactionBody \<Rightarrow> error + (Transaction \<times> DB)" where
  "createTransactionTx db now userId eventId body =
     (case find (\<lambda>tt. tt_id tt = b_ticketTypeId body) (ticketTypes db) of
        None \<Rightarrow> Inl (ApiError ''Ticket type not found'' 404)
      | Some ticketType \<Rightarrow>
          (case find (\<lambda>e. ev_id e = tt_eventId ticketType) (events db) of
             None \<Rightarrow> Inl (PrismaError ''required relation event is missing'')
           | Some event \<Rightarrow>
               if tt_eventId ticketType \<noteq> eventId
               then Inl (ApiError ''Ticket type does not belong to this event'' 400)
               else if ownEvent db userId event
               then Inl (ApiError ''You cannot purchase tickets for your own event'' 403)
               else if tt_availableSeat ticketType < b_quantity body
               then Inl (ApiError ''Not enough seats available'' 400)
               else (case priceOrder db now userId eventId body ticketType of
                       Inl e \<Rightarrow> Inl e
                     | Inr pr \<Rightarrow> commitOrder db now userId eventId body (ev_title event) pr)))"

text \<open>
  \<^verbatim>\<open>createTransaction\<close> (lines 21-279): the two validations, then the atomic unit: an
  error inside it leaves the database as it was.
\<close>

definition createTransaction ::
  "DB \<Rightarrow> date \<Rightarrow> int \<Rightarrow> int \<Rightarrow> CreateTransactionBody \<Rightarrow> (error + Transaction) \<times> DB" where
  "createTransaction db now userId eventId body =
     (if b_quantity body \<le> 0
      then (Inl (ApiError ''Quantity must be greater than 0'' 400), db)
      else if pointsRequested body < 0
      then (Inl (ApiError ''Points to use cannot be negative'' 400), db)
      else (case createTransactionTx db now userId eventId body of
              Inl e \<Rightarrow> (Inl e, db)
            | Inr (newTransaction, db') \<Rightarrow> (Inr newTransaction, db')))"

section \<open>\<^verbatim>\<open>TransactionService.rollbackTransaction\<close>\<close>

text \<open>
  Lines 1068-1131, one \<^verbatim>\<open>prisma.$transaction\<close>: the result is the new database, or the
  error with the database unchanged. The routine reads the transaction's columns and
  never its status.
\<close>

definition rollbackTransaction :: "DB \<Rightarrow> int \<Rightarrow> error + DB" where
  "rollbackTransaction db transactionId =
     (case find (\<lambda>t. t_id t = transactionId) (transactions db) of
        None \<Rightarrow> Inl (ApiError ''Transaction not found'' 404)
      | Some transaction \<Rightarrow>
     (case update (\<lambda>tt. tt_id tt = t_ticketTypeId transaction)
             (\<lambda>tt. tt\<lparr>tt_availableSeat := tt_availableSeat tt + t_ticketQty transaction,
                        tt_sold := tt_sold tt - t_ticketQty transaction\<rparr>) (ticketTypes db) of
        Inl e \<Rightarrow> Inl e
      | Inr tts \<Rightarrow>
     (case (if truthyNum (t_voucherId transaction)
            then update (\<lambda>v. Some (v_id v) = t_voucherId transaction)
                   (\<lambda>v. v\<lparr>v_usedCount := v_usedCount v - 1\<rparr>) (vouchers db)
            else Inr (vouchers db)) of
        Inl e \<Rightarrow> Inl e
      | Inr vs \<Rightarrow>
     (case (if truthyNum (t_couponId transaction)
            then update (\<lambda>c. Some (c_id c) = t_couponId transaction)
                   (\<lambda>c. c\<lparr>c_isUsed := False\<rparr>) (coupons db)
            else Inr (coupons db)) of
        Inl e \<Rightarrow> Inl e
      | Inr cs \<Rightarrow>
     (case (if 0 < t_pointsUsed transaction
            then update (\<lambda>u. u_id u = t_userId transaction)
                   (\<lambda>u. u\<lparr>u_point := u_point u + t_pointsUsed transaction\<rparr>) (users db)
            else Inr (users db)) of
        Inl e \<Rightarrow> Inl e
      | Inr us \<Rightarrow>
          Inr (db\<lparr>ticketTypes := tts, vouchers := vs, coupons := cs, users := us,
                  points :=
                    (if 0 < t_pointsUsed transaction
                     then deleteMany
                            (\<lambda>p. p_userId p = t_userId transaction \<and> p_type p = USED
                                 \<and> strContains (p_description p) ''transaction on event''
                                 \<and> p_amount p = - t_pointsUsed transaction) (points db)
                     else points db)\<rparr>))))))"

section \<open>The transitions that roll back\<close>

text \<open>
  Every \<^verbatim>\<open>transaction.update\<close> also stamps \<^verbatim>\<open>updatedAt\<close> (Prisma's \<^verbatim>\<open>@updatedAt\<close>).
  Notifications and e-mails are external collaborators and are left out. These
  methods are not one atomic unit: the result pairs what the caller gets with the
  database as the call leaves it.
\<close>

text \<open>\<^verbatim>\<open>uploadPaymentProof\<close> (lines 281-399).\<close>

definition uploadPaymentProof ::
  "DB \<Rightarrow> date \<Rightarrow> int \<Rightarrow> int \<Rightarrow> string \<Rightarrow> (error + Transaction) \<times> DB" where
  "uploadPaymentProof db now transactionId userId paymentProof =
     (case find (\<lambda>t. t_id t = transactionId) (transactions db) of
        None \<Rightarrow> (Inl (ApiError ''Transaction not found'' 404), db)
      | Some transaction \<Rightarrow>
          if t_userId transaction \<noteq> userId
          then (Inl (ApiError ''You don't have permission to update this transaction'' 403), db)
          else if t_status transaction \<noteq> WAITING_PAYMENT
          then (Inl (ApiError ''Transaction is not in waiting payment status'' 400), db)
          else if t_expiredAt transaction < now
          then (case rollbackTransaction db transactionId of
                  Inl e \<Rightarrow> (Inl e, db)
                | Inr db1 \<Rightarrow> (Inl (ApiError ''Payment deadline has expired'' 400), db1))
          else (case update (\<lambda>t. t_id t = transactionId)
                       (\<lambda>t. t\<lparr>t_paymentProof := Some paymentProof,
                                 t_status := WAITING_CONFIRMATION,
                                 t_updatedAt := now\<rparr>) (transactions db) of
                  Inl e \<Rightarrow> (Inl e, db)
                | Inr txs \<Rightarrow>
                    (Inr (transaction\<lparr>t_paymentProof := Some paymentProof,
                                       t_status := WAITING_CONFIRMATION,
                                       t_updatedAt := now\<rparr>),
                     db\<lparr>transactions := txs\<rparr>)))"

text \<open>\<^verbatim>\<open>cancelTransaction\<close> (lines 751-837).\<close>

definition cancelTransaction ::
  "DB \<Rightarrow> date \<Rightarrow> int \<Rightarrow> int \<Rightarrow> (error + Transaction) \<times> DB" where
  "cancelTransaction db now transactionId userId =
     (case find (\<lambda>t. t_id t = transactionId) (transactions db) of
        None \<Rightarrow> (Inl (ApiError ''Transaction not found'' 404), db)
      | Some transaction \<Rightarrow>
          if t_userId transaction \<noteq> userId
          then (Inl (ApiError ''You don't have permission to cancel this transaction'' 403), db)
          else if t_status transaction \<noteq> WAITING_PAYMENT
                  \<and> t_status transaction \<noteq> WAITING_CONFIRMATION
          then (Inl (ApiError ''Transaction cannot be cancelled at this stage'' 400), db)
          else (case rollbackTransaction db transactionId of
                  Inl e \<Rightarrow> (Inl e, db)
                | Inr db1 \<Rightarrow>
                    (case update (\<lambda>t. t_id t = transactionId)
                            (\<lambda>t. t\<lparr>t_status := CANCELLED, t_updatedAt := now\<rparr>)
                            (transactions db1) of
                       Inl e \<Rightarrow> (Inl e, db1)
                     | Inr txs \<Rightarrow>
                         (Inr (transaction\<lparr>t_status := CANCELLED, t_updatedAt := now\<rparr>),
                          db1\<lparr>transactions := txs\<rparr>))))"

text \<open>
  \<^verbatim>\<open>expireTransactions\<close> (lines 1134-1153), the periodic sweep: the loop over the rows
  that \<^verbatim>\<open>findMany\<close> returned, then their number.
\<close>

fun expireLoop :: "DB \<Rightarrow> date \<Rightarrow> Transaction list \<Rightarrow> error option \<times> DB" where
  "expireLoop db now [] = (None, db)"
| "expireLoop db now (transaction # rest) =
     (case rollbackTransaction db (t_id transaction) of
        Inl e \<Rightarrow> (Some e, db)
      | Inr db1 \<Rightarrow>
          (case update (\<lambda>t. t_id t = t_id transaction)
                  (\<lambda>t. t\<lparr>t_status := EXPIRED, t_updatedAt := now\<rparr>) (transactions db1) of
             Inl e \<Rightarrow> (Some e, db1)
           | Inr txs \<Rightarrow> expireLoop (db1\<lparr>transactions := txs\<rparr>) now rest))"

definition expireTransactions :: "DB \<Rightarrow> date \<Rightarrow> (error + nat) \<times> DB" where
  "expireTransactions db now =
     (let expiredTransactions =
            filter (\<lambda>t. t_status t = WAITING_PAYMENT \<and> t_expiredAt t < now) (transactions db)
      in case expireLoop db now expiredTransactions of
           (Some e, db1) \<Rightarrow> (Inl e, db1)
         | (None, db1) \<Rightarrow> (Inr (length expiredTransactions), db1))"

section \<open>\<^verbatim>\<open>TransactionService.confirmTransaction\<close>\<close>

text \<open>
  \<^verbatim>\<open>crypto.randomBytes(32).toString("hex")\<close>: the entropy source is a tape of bytes, of
  which the \<open>i\<close>-th draw of a call reads the next 32; each byte prints as two
  lower-case hexadecimal digits.
\<close>

definition hexDigit :: "nat \<Rightarrow> char" where
  "hexDigit n = ''0123456789abcdef'' ! (n mod 16)"

definition toHex :: "8 word list \<Rightarrow> string" where
  "toHex bytes = concat (map (\<lambda>b. [hexDigit (unat b div 16), hexDigit (unat b mod 16)]) bytes)"

definition randomBytes :: "(nat \<Rightarrow> 8 word) \<Rightarrow> nat \<Rightarrow> nat \<Rightarrow> 8 word list" where
  "randomBytes tape pos n = map tape [pos ..< pos + n]"

text \<open>
  The loop of lines 471-484, \<open>i\<close> the loop counter and \<open>n\<close> the iterations left.
  \<^verbatim>\<open>attendee.create\<close> throws \<^verbatim>\<open>P2002\<close> when the token is taken (the unique index
  \<^verbatim>\<open>attendees_qrToken_key\<close>).
\<close>

fun createAttendees ::
  "(nat \<Rightarrow> 8 word) \<Rightarrow> Transaction \<Rightarrow> nat \<Rightarrow> nat \<Rightarrow> Attendee list \<Rightarrow> error option \<times> Attendee list" where
  "createAttendees tape updatedTransaction i 0 tbl = (None, tbl)"
| "createAttendees tape updatedTransaction i (Suc n) tbl =
     (let qrToken = toHex (randomBytes tape (32 * i) 32)
      in if list_ex (\<lambda>a. a_qrToken a = qrToken) tbl
         then (Some (PrismaError ''P2002''), tbl)
         else createAttendees tape updatedTransaction (Suc i) n
                (create \<lparr>a_transactionId = t_id updatedTransaction,
                         a_userId = t_userId updatedTransaction,
                         a_eventId = t_eventId updatedTransaction,
                         a_ticketTypeId = t_ticketTypeId updatedTransaction,
                         a_qrToken = qrToken,
                         a_checkedIn = False,
                         a_checkedInAt = None\<rparr> tbl))"

text \<open>
  Lines 401-484 (what follows them sends e-mails and a notification). The status is
  written first and each attendee after it, outside any \<^verbatim>\<open>$transaction\<close>.
\<close>

definition confirmTransaction ::
  "DB \<Rightarrow> (nat \<Rightarrow> 8 word) \<Rightarrow> date \<Rightarrow> int \<Rightarrow> int \<Rightarrow> (error + Transaction) \<times> DB" where
  "confirmTransaction db tape now transactionId organizerId =
     (case find (\<lambda>organizer. org_userId organizer = organizerId) (organizers db) of
        None \<Rightarrow> (Inl (ApiError ''Organizer not found'' 404), db)
      | Some organizer \<Rightarrow>
     (case find (\<lambda>t. t_id t = transactionId) (transactions db) of
        None \<Rightarrow> (Inl (ApiError ''Transaction not found'' 404), db)
      | Some transaction \<Rightarrow>
     (case find (\<lambda>e. ev_id e = t_eventId transaction) (events db) of
        None \<Rightarrow> (Inl (PrismaError ''required relation event is missing''), db)
      | Some event \<Rightarrow>
          if ev_organizerId event \<noteq> org_id organizer
          then (Inl (ApiError ''You don't have permission to confirm this transaction'' 403), db)
          else if t_status transaction \<noteq> WAITING_CONFIRMATION
          then (Inl (ApiError ''Transaction is not in waiting confirmation status'' 400), db)
          else (case update (\<lambda>t. t_id t = transactionId)
                       (\<lambda>t. t\<lparr>t_status := DONE, t_updatedAt := now\<rparr>) (transactions db) of
                  Inl e \<Rightarrow> (Inl e, db)
                | Inr txs \<Rightarrow>
                    (let updatedTransaction = transaction\<lparr>t_status := DONE, t_updatedAt := now\<rparr>
                     in case createAttendees tape updatedTransaction 0
                               (nat (t_ticketQty updatedTransaction)) (attendees db) of
                          (Some e, rows) \<Rightarrow> (Inl e, db\<lparr>transactions := txs, attendees := rows\<rparr>)
                        | (None, rows) \<Rightarrow>
                            (Inr updatedTransaction,
                             db\<lparr>transactions := txs, attendees := rows\<rparr>))))))"

section \<open>\<^verbatim>\<open>TransactionService.checkIn\<close>\<close>

record CheckInResult =
  r_success :: bool
  r_message :: string
  r_checkedInAt :: "date option"

text \<open>
  Lines 1258-1312. The method reads the clock three times: \<open>now\<close> for the test
  against the event's end, \<open>stamp\<close> for the row and \<open>shown\<close> for the result.
\<close>

definition checkIn ::
  "DB \<Rightarrow> date \<Rightarrow> date \<Rightarrow> date \<Rightarrow> string \<Rightarrow> (error + CheckInResult) \<times> DB" where
  "checkIn db now stamp shown qrToken =
     (case find (\<lambda>a. a_qrToken a = qrToken) (attendees db) of
        None \<Rightarrow> (Inl (ApiError ''Invalid ticket - QR code not found'' 404), db)
      | Some attendee \<Rightarrow>
     (case find (\<lambda>t. t_id t = a_transactionId attendee) (transactions db) of
        None \<Rightarrow> (Inl (PrismaError ''required relation transaction is missing''), db)
      | Some transaction \<Rightarrow>
     (case find (\<lambda>e. ev_id e = a_eventId attendee) (events db) of
        None \<Rightarrow> (Inl (PrismaError ''required relation event is missing''), db)
      | Some event \<Rightarrow>
          if t_status transaction \<noteq> DONE
          then (Inl (ApiError ''Transaction is not confirmed'' 400), db)
          else if (case ev_endDate event of None \<Rightarrow> False | Some endDate \<Rightarrow> endDate < now)
          then (Inl (ApiError ''This event has already ended'' 400), db)
          else if a_checkedIn attendee
          then (Inr \<lparr>r_success = False, r_message = ''Already checked in'',
                     r_checkedInAt = a_checkedInAt attendee\<rparr>, db)
          else (case update (\<lambda>a. a_qrToken a = qrToken)
                       (\<lambda>a. a\<lparr>a_checkedIn := True, a_checkedInAt := Some stamp\<rparr>)
                       (attendees db) of
                  Inl e \<Rightarrow> (Inl e, db)
                | Inr rows \<Rightarrow>
                    (Inr \<lparr>r_success = True, r_message = ''Check-in successful!'',
                          r_checkedInAt = Some shown\<rparr>,
                     db\<lparr>attendees := rows\<rparr>)))))"

section \<open>The balance as the specification words it\<close>

text \<open>
  The specification's walk: the earned entries oldest first, a pool that starts at
  the total absolute used amount, each entry giving up what the pool still asks for,
  and what is left of an entry counted when the entry is unexpired.
\<close>

fun specWalk :: "date \<Rightarrow> Point list \<Rightarrow> int \<Rightarrow> int" where
  "specWalk now [] pool = 0"
| "specWalk now (e # es) pool =
     (let taken = min (p_amount e) pool; left = p_amount e - taken
      in (if unexpired now e then left else 0) + specWalk now es (pool - taken))"

definition specBalance :: "int \<Rightarrow> date \<Rightarrow> Point list \<Rightarrow> int" where
  "specBalance userId now tbl =
     specWalk now
       (sort_key p_createdAt (filter (\<lambda>p. p_userId p = userId \<and> p_type p = EARNED) tbl))
       (sum_list (map (\<lambda>p. \<bar>p_amount p\<bar>)
          (filter (\<lambda>p. p_userId p = userId \<and> p_type p = USED) tbl)))"

text \<open>The data model's sign convention: earned amounts are not negative, used ones not positive.\<close>

definition signedLedger :: "int \<Rightarrow> Point list \<Rightarrow> bool" where
  "signedLedger userId tbl =
     list_all (\<lambda>p. if p_userId p = userId
                    then (if p_type p = EARNED then 0 \<le> p_amount p else p_amount p \<le> 0)
                    else True) tbl"

section \<open>Scenarios\<close>

text \<open>
  A small database: one event (organizer 1, whose user is 2) with one ticket category
  of ten seats at 100000, a 29 percent voucher, a customer 7 with a welcome coupon
  and 10000 earned points.
\<close>

definition seedDb :: DB where
  "seedDb =
     \<lparr>ticketTypes =
        [\<lparr>tt_id = 1, tt_eventId = 1, tt_price = 100000, tt_totalSeat = 10,
          tt_availableSeat = 10, tt_sold = 0\<rparr>],
      events =
        [\<lparr>ev_id = 1, ev_organizerId = 1, ev_title = ''Expo'',
          ev_endDate = Some (40 * 86400000)\<rparr>],
      organizers = [\<lparr>org_id = 1, org_userId = 2\<rparr>],
      vouchers =
        [\<lparr>v_id = 1, v_eventId = 1, v_code = ''PROMO29'', v_discountAmount = 29,
          v_discountType = PERCENTAGE, v_startDate = 0, v_endDate = 10 * 86400000,
          v_usedCount = 0, v_usageLimit = 5\<rparr>],
      coupons =
        [\<lparr>c_id = 1, c_userId = 7, c_code = ''WELCOME-A1B2C3'', c_discountAmount = 50000,
          c_expiredAt = 90 * 86400000, c_isUsed = False\<rparr>],
      users =
        [\<lparr>u_id = 7, u_role = CUSTOMER, u_point = 10000\<rparr>,
         \<lparr>u_id = 2, u_role = ORGANIZER, u_point = 0\<rparr>],
      points =
        [\<lparr>p_userId = 7, p_amount = 10000, p_description = ''Referral reward'',
          p_type = EARNED, p_createdAt = 0, p_expiredAt = Some (90 * 86400000)\<rparr>],
      transactions = [],
      attendees = []\<rparr>"

definition orderBody :: "int \<Rightarrow> string option \<Rightarrow> int option \<Rightarrow> CreateTransactionBody" where
  "orderBody quantity voucherCode pointsToUse =
     \<lparr>b_ticketTypeId = 1, b_quantity = quantity, b_voucherCode = voucherCode,
      b_couponCode = None, b_pointsToUse = pointsToUse\<rparr>"

text \<open>
  The specification's ledger: 5000 earned (expires after 30 days), then 3000 earned
  (expires after 2 days), and 4000 used.
\<close>

definition fifoScenario :: "Point list" where
  "fifoScenario =
     [\<lparr>p_userId = 7, p_amount = 5000, p_description = ''Referral reward'', p_type = EARNED,
       p_createdAt = 1000, p_expiredAt = Some (30 * 86400000)\<rparr>,
      \<lparr>p_userId = 7, p_amount = 3000, p_description = ''Referral reward'', p_type = EARNED,
       p_createdAt = 2000, p_expiredAt = Some (2 * 86400000)\<rparr>,
      \<lparr>p_userId = 7, p_amount = - 4000,
       p_description = ''Used for transaction on event: Expo'', p_type = USED,
       p_createdAt = 3000, p_expiredAt = None\<rparr>]"

text \<open>
  Customer 7 reserves two seats with 1000 points at time 1000 (transaction 1, deadline
  7201000).
\<close>

definition reservedDb :: DB where
  "reservedDb = snd (createTransaction seedDb 1000 7 1 (orderBody 2 None (Some 1000)))"

text \<open>Customer 7 holds one pending order that used 1000 points.\<close>

definition firstOrderDb :: DB where
  "firstOrderDb = snd (createTransaction seedDb 1000 7 1 (orderBody 1 None (Some 1000)))"

text \<open>
  Customer 7 orders three seats and submits the payment proof in time; organizer user
  2 confirms, the entropy tape giving the bytes 0, 1, 2, ...
\<close>

definition countingTape :: "nat \<Rightarrow> 8 word" where
  "countingTape n = of_nat n"

definition paidDb :: DB where
  "paidDb =
     snd (uploadPaymentProof
            (snd (createTransaction seedDb 1000 7 1 (orderBody 3 None None))) 2000 1 7 ''proof.png'')"

definition confirmedDb :: DB where
  "confirmedDb = snd (confirmTransaction paidDb countingTape 3000 1 2)"

text \<open>
  The seed with a voucher of 150 percent in place of the 29 percent one (a voucher is
  created with any positive amount).
\<close>

definition generousDb :: DB where
  "generousDb =
     seedDb\<lparr>vouchers :=
       [\<lparr>v_id = 2, v_eventId = 1, v_code = ''PROMO150'', v_discountAmount = 150,
         v_discountType = PERCENTAGE, v_startDate = 0, v_endDate = 10 * 86400000,
         v_usedCount = 0, v_usageLimit = 5\<rparr>]\<rparr>"

section \<open>The seat invariant\<close>

text \<open>
  The data model's invariant of a ticket category, and with it what
  \<^verbatim>\<open>createTransaction\<close> validates of every transaction it stores: a positive quantity.
\<close>

definition seatInvariant :: "TicketType \<Rightarrow> bool" where
  "seatInvariant tt =
     (tt_availableSeat tt + tt_sold tt = tt_totalSeat tt \<and> 0 \<le> tt_availableSeat tt)"

definition seatsConsistent :: "DB \<Rightarrow> bool" where
  "seatsConsistent db =
     (list_all seatInvariant (ticketTypes db)
      \<and> list_all (\<lambda>t. 0 < t_ticketQty t) (transactions db))"

section \<open>The point balance is the specification's FIFO walk\<close>

lemma fifoLoop_specWalk:
  "list_all (\<lambda>p. 0 \<le> p_amount p) es \<Longrightarrow> 0 \<le> pool \<Longrightarrow>
   fifoLoop now es pool bal = bal + specWalk now es pool"
proof (induction es arbitrary: pool bal)
  case Nil
  then show ?case by simp
next
  case (Cons e es)
  have amt: "0 \<le> p_amount e" and rest: "list_all (\<lambda>p. 0 \<le> p_amount p) es"
    using Cons.prems(1) by simp_all
  have pool': "0 \<le> pool - min (p_amount e) pool" by simp
  show ?case
  proof (cases "0 < pool")
    case True
    then show ?thesis
      using Cons.IH [OF rest pool'] amt by (simp add: Let_def)
  next
    case False
    with Cons.prems(2) have z: "pool = 0" by simp
    have m: "min (p_amount e) 0 = 0" using amt by simp
    show ?thesis
      using Cons.IH [OF rest, of 0] amt by (simp add: Let_def z m)
  qed
qed

lemma abs_sum_nonpos:
  "list_all (\<lambda>a. a \<le> (0::int)) xs \<Longrightarrow> \<bar>sum_list xs\<bar> = sum_list (map abs xs)"
proof (induction xs)
  case Nil
  then show ?case by simp
next
  case (Cons a xs)
  then have "sum_list xs \<le> 0" by (simp add: sum_list_nonpos list_all_iff)
  with Cons show ?case by simp
qed

lemma calculate_eq_specBalance:
  assumes "signedLedger userId tbl"
  shows "calculateUserPointBalance userId now tbl = specBalance userId now tbl"
proof -
  let ?E = "filter (\<lambda>p. p_userId p = userId \<and> p_type p = EARNED) tbl"
  let ?U = "filter (\<lambda>p. p_userId p = userId \<and> p_type p = USED) tbl"
  have e: "list_all (\<lambda>p. 0 \<le> p_amount p) (sort_key p_createdAt ?E)"
    using assms by (auto simp: signedLedger_def list_all_iff split: if_splits)
  have u: "list_all (\<lambda>a. a \<le> 0) (map p_amount ?U)"
    using assms by (auto simp: signedLedger_def list_all_iff split: if_splits)
  have "\<bar>usedSum userId tbl\<bar> = sum_list (map (\<lambda>p. \<bar>p_amount p\<bar>) ?U)"
    using abs_sum_nonpos [OF u] by (simp add: usedSum_def comp_def)
  then show ?thesis
    using fifoLoop_specWalk [OF e, of "\<bar>usedSum userId tbl\<bar>" now 0]
    by (simp add: calculateUserPointBalance_def specBalance_def earnedPoints_def)
qed

lemma fifoScenario_before_expiry: "calculateUserPointBalance 7 4000 fifoScenario = 4000"
  by (simp add: calculateUserPointBalance_def fifoScenario_def earnedPoints_def usedSum_def
      unexpired_def)

lemma fifoScenario_after_expiry:
  "calculateUserPointBalance 7 (2 * 86400000) fifoScenario = 1000"
  by (simp add: calculateUserPointBalance_def fifoScenario_def earnedPoints_def usedSum_def
      unexpired_def)

text \<open>
  Claim C6. On every ledger that keeps the data model's signs (earned amounts not
  negative, used amounts not positive), for every user and every time, the balance
  that \<^verbatim>\<open>calculateUserPointBalance\<close> computes is the specification's walk: the earned
  entries oldest first, the total absolute used amount consumed from them in order,
  and what is left of each entry added only when the entry is unexpired (no expiry, or
  an expiry strictly after now). On the specification's example (5000 earned, then
  3000 earned, 4000 used) the balance is 4000, and 1000 once the second entry has
  expired.
\<close>

theorem calculateUserPointBalance_fifo:
  "(signedLedger userId tbl \<longrightarrow>
      calculateUserPointBalance userId now tbl = specBalance userId now tbl)
   \<and> calculateUserPointBalance 7 4000 fifoScenario = 4000
   \<and> calculateUserPointBalance 7 (2 * 86400000) fifoScenario = 1000"
  using calculate_eq_specBalance fifoScenario_before_expiry fifoScenario_after_expiry
  by blast

theorem calculateUserPointBalance_fifo_witness:
  "signedLedger 7 fifoScenario
   \<and> calculateUserPointBalance 7 4000 fifoScenario = specBalance 7 4000 fifoScenario
   \<and> specBalance 7 4000 fifoScenario = 4000"
proof -
  have s: "signedLedger 7 fifoScenario"
    by (simp add: signedLedger_def fifoScenario_def)
  have c: "calculateUserPointBalance 7 4000 fifoScenario = specBalance 7 4000 fifoScenario"
    using calculateUserPointBalance_fifo [of 7 fifoScenario 4000] s by blast
  have "specBalance 7 4000 fifoScenario = 4000"
    by (simp add: specBalance_def fifoScenario_def unexpired_def)
  with s c show ?thesis by simp
qed

section \<open>Rollback is not guarded by the status\<close>

text \<open>
  Claim C1. The claim: the rollback proceeds only from the expected status, so no
  sequence of operations releases a transaction's seats or restores its points twice.
  The code at a late payment proof followed by the sweep: customer 7 reserves two of
  ten seats with 1000 points; one second after the deadline the customer submits a
  payment proof, which rolls the reservation back (ten seats again) and fails; the
  transaction is still \<open>WAITING_PAYMENT\<close>, so the sweep
  \<^verbatim>\<open>expireTransactions\<close> finds it and rolls it back again: twelve seats are
  available out of ten, minus two are sold, and the customer's cached points are
  11000 where 10000 were held before the purchase. \<^verbatim>\<open>cancelTransaction\<close> in place of
  the sweep does the same.
\<close>

theorem rollback_applied_twice:
  "(let late = uploadPaymentProof reservedDb 7202000 1 7 ''proof.png'';
        swept = expireTransactions (snd late) 7260000;
        cancelled = cancelTransaction (snd late) 7260000 1 7
    in map tt_availableSeat (ticketTypes seedDb) = [10]
       \<and> map u_point (users seedDb) = [10000, 0]
       \<and> map tt_availableSeat (ticketTypes reservedDb) = [8]
       \<and> map tt_sold (ticketTypes reservedDb) = [2]
       \<and> map u_point (users reservedDb) = [9000, 0]
       \<and> fst late = Inl (ApiError ''Payment deadline has expired'' 400)
       \<and> map tt_availableSeat (ticketTypes (snd late)) = [10]
       \<and> map u_point (users (snd late)) = [10000, 0]
       \<and> fst swept = Inr 1
       \<and> map tt_totalSeat (ticketTypes (snd swept)) = [10]
       \<and> map tt_availableSeat (ticketTypes (snd swept)) = [12]
       \<and> map tt_sold (ticketTypes (snd swept)) = [- 2]
       \<and> map u_point (users (snd swept)) = [11000, 0]
       \<and> map t_status (transactions (snd swept)) = [EXPIRED]
       \<and> map_sum id t_status (fst cancelled) = Inr CANCELLED
       \<and> map tt_availableSeat (ticketTypes (snd cancelled)) = [12]
       \<and> map u_point (users (snd cancelled)) = [11000, 0])"
  unfolding reservedDb_def by code_simp

section \<open>A late payment proof leaves the status as it was\<close>

text \<open>
  Claim C2. The claim: a payment proof submitted after the deadline rolls the
  transaction back, sets its status to \<open>EXPIRED\<close> and fails. The code at the
  transaction of \<open>reservedDb\<close> (deadline 7201000), one second late: the call fails
  with the deadline error and the seats are released, but the status it leaves is
  \<open>WAITING_PAYMENT\<close>, not \<open>EXPIRED\<close>.
\<close>

theorem uploadPaymentProof_late_keeps_status:
  "map t_status (transactions reservedDb) = [WAITING_PAYMENT]
   \<and> map t_userId (transactions reservedDb) = [7]
   \<and> map t_expiredAt (transactions reservedDb) = [7201000]
   \<and> fst (uploadPaymentProof reservedDb 7202000 1 7 ''proof.png'')
       = Inl (ApiError ''Payment deadline has expired'' 400)
   \<and> map tt_availableSeat
        (ticketTypes (snd (uploadPaymentProof reservedDb 7202000 1 7 ''proof.png''))) = [10]
   \<and> map t_status
        (transactions (snd (uploadPaymentProof reservedDb 7202000 1 7 ''proof.png'')))
       = [WAITING_PAYMENT]"
  unfolding reservedDb_def by code_simp

section \<open>Create, then roll back\<close>

text \<open>
  Claim C3. The claim: rolling back a transaction that was just created restores the
  seats, the voucher and coupon counters and the point balance, cached and computed,
  to their values before the creation. The code where the customer already holds an
  order that used the same number of points: before the second order the computed
  balance is 9000 (10000 earned, 1000 used by order 1); the second order uses
  another 1000 (balance 8000); its rollback deletes every used entry of that user
  with amount -1000, the one of order 1 included, so the computed balance is 10000,
  not 9000, while the cached total is back at 9000 and the seats at 9.
\<close>

theorem create_rollback_point_balance:
  "(let created = createTransaction firstOrderDb 2000 7 1 (orderBody 1 None (Some 1000));
        undone = rollbackTransaction (snd created) 2
    in map_sum id t_id (fst created) = Inr 2
       \<and> map t_status (transactions firstOrderDb) = [WAITING_PAYMENT]
       \<and> calculateUserPointBalance 7 3000 (points firstOrderDb) = 9000
       \<and> map u_point (users firstOrderDb) = [9000, 0]
       \<and> map tt_availableSeat (ticketTypes firstOrderDb) = [9]
       \<and> calculateUserPointBalance 7 3000 (points (snd created)) = 8000
       \<and> map_sum id (\<lambda>db. calculateUserPointBalance 7 3000 (points db)) undone = Inr 10000
       \<and> map_sum id (\<lambda>db. map u_point (users db)) undone = Inr [9000, 0]
       \<and> map_sum id (\<lambda>db. map tt_availableSeat (ticketTypes db)) undone = Inr [9])"
  unfolding firstOrderDb_def by code_simp

section \<open>The percentage voucher\<close>

text \<open>
  Claim C4. The claim: a percentage voucher takes \<open>floor (subtotal * pct / 100)\<close>, and
  the stored final price is the subtotal less the discounts and the points. The
  code computes \<^verbatim>\<open>Math.floor(subtotal * (pct / 100))\<close> on doubles: with a subtotal of
  100000 and a voucher of 29 percent the quotient is the double below 0.29 and the
  product the double below 29000, so the discount is 28999 and the stored final
  price 71001, where the claim's formula gives 29000 and 71000.
\<close>

theorem percentage_voucher_double_rounding:
  "map_sum id (\<lambda>t. (t_totalPrice t, t_voucherId t, t_pointsUsed t, t_finalPrice t))
     (fst (createTransaction seedDb 1000 7 1 (orderBody 1 (Some ''PROMO29'') None)))
     = Inr (100000, Some 1, 0, 71001)
   \<and> map (\<lambda>v. voucherDiscountOf 100000 v) (vouchers seedDb) = [28999]
   \<and> map (\<lambda>v. \<lfloor>(100000 * of_int (v_discountAmount v) / 100 :: rat)\<rfloor>) (vouchers seedDb)
       = [29000]"
  by code_simp

section \<open>What a successful \<^verbatim>\<open>createTransaction\<close> did\<close>

lemma update_Inr_iff:
  "update P f rows = Inr rows' \<longleftrightarrow> (\<exists>r. find P rows = Some r) \<and> rows' = updateFirst P f rows"
  by (auto simp: update_def split: option.splits)

lemma update_found: "find P rows = Some r \<Longrightarrow> update P f rows = Inr (updateFirst P f rows)"
  by (simp add: update_def)

lemma list_all_updateFirst:
  "list_all Q rows \<Longrightarrow> (\<And>r. find P rows = Some r \<Longrightarrow> Q r \<Longrightarrow> Q (f r)) \<Longrightarrow>
   list_all Q (updateFirst P f rows)"
  by (induction rows) auto

lemma find_updateFirst:
  "find P rows = Some r \<Longrightarrow> P (f r) \<Longrightarrow> find P (updateFirst P f rows) = Some (f r)"
  by (induction rows) (auto split: if_splits)

lemma find_Some_set: "find P rows = Some r \<Longrightarrow> r \<in> set rows \<and> P r"
  by (induction rows) (auto split: if_splits)

lemma createTransaction_Inr:
  assumes "createTransaction db now userId eventId body = (Inr t, db')"
  shows "\<exists>ticketType event pr.
           0 < b_quantity body \<and> 0 \<le> pointsRequested body
           \<and> find (\<lambda>tt. tt_id tt = b_ticketTypeId body) (ticketTypes db) = Some ticketType
           \<and> find (\<lambda>e. ev_id e = tt_eventId ticketType) (events db) = Some event
           \<and> tt_eventId ticketType = eventId
           \<and> \<not> ownEvent db userId event
           \<and> b_quantity body \<le> tt_availableSeat ticketType
           \<and> priceOrder db now userId eventId body ticketType = Inr pr
           \<and> commitOrder db now userId eventId body (ev_title event) pr = Inr (t, db')"
  using assms
  by (auto simp: createTransaction_def createTransactionTx_def
      split: if_splits option.splits sum.splits prod.splits)

lemma createTransaction_Inl:
  "createTransaction db now userId eventId body = (Inl e, db') \<Longrightarrow> db' = db"
  by (auto simp: createTransaction_def split: if_splits sum.splits prod.splits)

lemma priceOrder_Inr:
  assumes "priceOrder db now userId eventId body ticketType = Inr pr"
  shows "\<exists>vd vid cd cid.
           applyVoucher db now eventId (b_voucherCode body) (pr_subtotal pr) = Inr (vd, vid)
           \<and> applyCoupon db now userId (b_couponCode body) (pr_subtotal pr - vd) = Inr (cd, cid)
           \<and> pr_subtotal pr = tt_price ticketType * b_quantity body
           \<and> pr_voucherDiscount pr = vd \<and> pr_voucherId pr = vid
           \<and> pr_couponDiscount pr = cd \<and> pr_couponId pr = cid
           \<and> pointsRequested body \<le> calculateUserPointBalance userId now (points db)
           \<and> pr_pointsToDeduct pr =
               min (pointsRequested body)
                 (min (calculateUserPointBalance userId now (points db)) (pr_subtotal pr - vd - cd))
           \<and> pr_finalPrice pr = max 0 (pr_subtotal pr - vd - cd - pr_pointsToDeduct pr)"
  using assms
  by (auto simp: priceOrder_def Let_def split: if_splits option.splits sum.splits prod.splits)

lemma commitOrder_Inr:
  assumes "commitOrder db now userId eventId body title pr = Inr (t, db')"
  shows "t_totalPrice t = pr_subtotal pr \<and> t_pointsUsed t = pr_pointsToDeduct pr
         \<and> t_finalPrice t = pr_finalPrice pr \<and> t_voucherId t = pr_voucherId pr
         \<and> t_couponId t = pr_couponId pr \<and> t_ticketQty t = b_quantity body
         \<and> t_status t = WAITING_PAYMENT \<and> t_expiredAt t = now + 7200000
         \<and> t_userId t = userId \<and> t_ticketTypeId t = b_ticketTypeId body
         \<and> t_id t = nextId (map t_id (transactions db))
         \<and> ticketTypes db' =
             updateFirst (\<lambda>tt. tt_id tt = b_ticketTypeId body)
               (\<lambda>tt. tt\<lparr>tt_availableSeat := tt_availableSeat tt - b_quantity body,
                          tt_sold := tt_sold tt + b_quantity body\<rparr>) (ticketTypes db)
         \<and> transactions db' = transactions db @ [t]"
  using assms
  by (auto simp: commitOrder_def Let_def create_def update_Inr_iff
      split: if_splits sum.splits)

section \<open>A request above the balance is refused\<close>

lemma createTransaction_fails_over_balance:
  assumes "calculateUserPointBalance userId now (points db) < pointsRequested body"
  shows "\<exists>e. createTransaction db now userId eventId body = (Inl e, db)"
proof (cases "fst (createTransaction db now userId eventId body)")
  case (Inl e)
  then obtain db' where r: "createTransaction db now userId eventId body = (Inl e, db')"
    by (cases "createTransaction db now userId eventId body") simp
  with createTransaction_Inl [OF r] show ?thesis by simp
next
  case (Inr t)
  then obtain db' where r: "createTransaction db now userId eventId body = (Inr t, db')"
    by (cases "createTransaction db now userId eventId body") simp
  from createTransaction_Inr [OF r] obtain ticketType pr where
    "priceOrder db now userId eventId body ticketType = Inr pr" by blast
  from priceOrder_Inr [OF this] assms show ?thesis by auto
qed

section \<open>Seats\<close>

lemma rollbackTransaction_Inr:
  assumes "rollbackTransaction db transactionId = Inr db'"
  shows "\<exists>transaction.
           find (\<lambda>t. t_id t = transactionId) (transactions db) = Some transaction
           \<and> ticketTypes db' =
               updateFirst (\<lambda>tt. tt_id tt = t_ticketTypeId transaction)
                 (\<lambda>tt. tt\<lparr>tt_availableSeat := tt_availableSeat tt + t_ticketQty transaction,
                            tt_sold := tt_sold tt - t_ticketQty transaction\<rparr>) (ticketTypes db)
           \<and> transactions db' = transactions db"
  using assms
  by (auto simp: rollbackTransaction_def update_Inr_iff
      split: if_splits option.splits sum.splits)

lemma createTransaction_seats:
  assumes "seatsConsistent db" "createTransaction db now userId eventId body = (r, db')"
  shows "seatsConsistent db'"
proof (cases r)
  case (Inl e)
  with assms createTransaction_Inl show ?thesis by blast
next
  case (Inr t)
  with assms have r: "createTransaction db now userId eventId body = (Inr t, db')" by simp
  from createTransaction_Inr [OF r] obtain ticketType and event :: Event and pr where
    q: "0 < b_quantity body" and
    f: "find (\<lambda>tt. tt_id tt = b_ticketTypeId body) (ticketTypes db) = Some ticketType" and
    a: "b_quantity body \<le> tt_availableSeat ticketType" and
    c: "commitOrder db now userId eventId body (ev_title event) pr = Inr (t, db')"
    by blast
  note co = commitOrder_Inr [OF c]
  have "list_all seatInvariant (ticketTypes db')"
    unfolding co [THEN conjunct2, THEN conjunct2, THEN conjunct2, THEN conjunct2, THEN conjunct2,
        THEN conjunct2, THEN conjunct2, THEN conjunct2, THEN conjunct2, THEN conjunct2,
        THEN conjunct2, THEN conjunct1]
  proof (rule list_all_updateFirst)
    show "list_all seatInvariant (ticketTypes db)"
      using assms(1) by (simp add: seatsConsistent_def)
  next
    fix row
    assume "find (\<lambda>tt. tt_id tt = b_ticketTypeId body) (ticketTypes db) = Some row"
      and "seatInvariant row"
    with f a show "seatInvariant
        (row\<lparr>tt_availableSeat := tt_availableSeat row - b_quantity body,
              tt_sold := tt_sold row + b_quantity body\<rparr>)"
      by (simp add: seatInvariant_def)
  qed
  moreover have "list_all (\<lambda>t. 0 < t_ticketQty t) (transactions db')"
    using co q assms(1) by (simp add: seatsConsistent_def)
  ultimately show ?thesis by (simp add: seatsConsistent_def)
qed

lemma rollbackTransaction_seats:
  assumes "seatsConsistent db" "rollbackTransaction db transactionId = Inr db'"
  shows "seatsConsistent db'"
proof -
  from rollbackTransaction_Inr [OF assms(2)] obtain transaction where
    f: "find (\<lambda>t. t_id t = transactionId) (transactions db) = Some transaction" and
    tt: "ticketTypes db' =
           updateFirst (\<lambda>tt. tt_id tt = t_ticketTypeId transaction)
             (\<lambda>tt. tt\<lparr>tt_availableSeat := tt_availableSeat tt + t_ticketQty transaction,
                        tt_sold := tt_sold tt - t_ticketQty transaction\<rparr>) (ticketTypes db)" and
    tr: "transactions db' = transactions db"
    by blast
  from find_Some_set [OF f] assms(1) have q: "0 < t_ticketQty transaction"
    by (auto simp: seatsConsistent_def list_all_iff)
  have "list_all seatInvariant (ticketTypes db')"
    unfolding tt
  proof (rule list_all_updateFirst)
    show "list_all seatInvariant (ticketTypes db)"
      using assms(1) by (simp add: seatsConsistent_def)
  next
    fix row
    assume "seatInvariant row"
    with q show "seatInvariant
        (row\<lparr>tt_availableSeat := tt_availableSeat row + t_ticketQty transaction,
              tt_sold := tt_sold row - t_ticketQty transaction\<rparr>)"
      by (simp add: seatInvariant_def)
  qed
  with tr assms(1) show ?thesis by (simp add: seatsConsistent_def)
qed

text \<open>
  Claim C7. Whenever every ticket category satisfies
  \<open>availableSeat + sold = totalSeat\<close> and \<open>0 \<le> availableSeat\<close> (and every stored
  transaction has the positive quantity that \<^verbatim>\<open>createTransaction\<close> validates), the same
  holds after every \<^verbatim>\<open>createTransaction\<close>, whatever its result, and after every
  successful \<^verbatim>\<open>rollbackTransaction\<close>.
\<close>

theorem seat_invariant_preserved:
  "(seatsConsistent db \<and> createTransaction db now userId eventId body = (r, db1)
      \<longrightarrow> seatsConsistent db1)
   \<and> (seatsConsistent db \<and> rollbackTransaction db transactionId = Inr db2
      \<longrightarrow> seatsConsistent db2)"
  using createTransaction_seats rollbackTransaction_seats by blast

theorem seat_invariant_preserved_witness:
  "seatsConsistent seedDb \<and> seatsConsistent reservedDb
   \<and> (\<exists>db2. rollbackTransaction reservedDb 1 = Inr db2 \<and> seatsConsistent db2)"
proof -
  have s: "seatsConsistent seedDb"
    by (simp add: seatsConsistent_def seatInvariant_def seedDb_def)
  have r: "createTransaction seedDb 1000 7 1 (orderBody 2 None (Some 1000))
             = (fst (createTransaction seedDb 1000 7 1 (orderBody 2 None (Some 1000))), reservedDb)"
    by (simp add: reservedDb_def)
  from seat_invariant_preserved [of seedDb 1000 7 1 "orderBody 2 None (Some 1000)" _ reservedDb] s r
  have c: "seatsConsistent reservedDb" by blast
  have "\<not> isl (rollbackTransaction reservedDb 1)"
    unfolding reservedDb_def by code_simp
  then obtain db2 where u: "rollbackTransaction reservedDb 1 = Inr db2"
    by (cases "rollbackTransaction reservedDb 1") auto
  with seat_invariant_preserved [of reservedDb _ _ _ _ _ _ 1 db2] c
  have "seatsConsistent db2" by blast
  with s c u show ?thesis by blast
qed

section \<open>Confirmation issues the tickets\<close>

lemma length_toHex: "length (toHex bytes) = 2 * length bytes"
  by (induction bytes) (simp_all add: toHex_def)

lemma qrToken_nonempty: "toHex (randomBytes tape pos 32) \<noteq> []"
proof -
  have "length (toHex (randomBytes tape pos 32)) = 64"
    by (simp add: length_toHex randomBytes_def)
  then show ?thesis by auto
qed

lemma createAttendees_None:
  "createAttendees tape t i n tbl = (None, rows) \<Longrightarrow>
   \<exists>new. rows = tbl @ new \<and> length new = n
     \<and> list_all (\<lambda>a. a_transactionId a = t_id t \<and> a_qrToken a \<noteq> []) new
     \<and> distinct (map a_qrToken new)
     \<and> set (map a_qrToken new) \<inter> set (map a_qrToken tbl) = {}"
proof (induction n arbitrary: i tbl)
  case 0
  then show ?case by simp
next
  case (Suc n)
  let ?tok = "toHex (randomBytes tape (32 * i) 32)"
  let ?a = "\<lparr>a_transactionId = t_id t, a_userId = t_userId t, a_eventId = t_eventId t,
             a_ticketTypeId = t_ticketTypeId t, a_qrToken = ?tok, a_checkedIn = False,
             a_checkedInAt = None\<rparr>"
  from Suc.prems have fresh: "\<not> list_ex (\<lambda>a. a_qrToken a = ?tok) tbl"
    and rec: "createAttendees tape t (Suc i) n (tbl @ [?a]) = (None, rows)"
    by (auto simp: Let_def create_def split: if_splits)
  from Suc.IH [OF rec] obtain new where
    n: "rows = (tbl @ [?a]) @ new" "length new = n"
       "list_all (\<lambda>a. a_transactionId a = t_id t \<and> a_qrToken a \<noteq> []) new"
       "distinct (map a_qrToken new)"
       "set (map a_qrToken new) \<inter> set (map a_qrToken (tbl @ [?a])) = {}"
    by blast
  have f: "?tok \<notin> set (map a_qrToken tbl)"
    using fresh by (auto simp: list_ex_iff)
  have g: "?tok \<notin> set (map a_qrToken new)"
    using n(5) by auto
  have "rows = tbl @ (?a # new)" using n(1) by simp
  moreover have "length (?a # new) = Suc n" using n(2) by simp
  moreover have "list_all (\<lambda>a. a_transactionId a = t_id t \<and> a_qrToken a \<noteq> []) (?a # new)"
    using n(3) qrToken_nonempty by simp
  moreover have "distinct (map a_qrToken (?a # new))"
    using n(4) g by simp
  moreover have "set (map a_qrToken (?a # new)) \<inter> set (map a_qrToken tbl) = {}"
    using n(5) f by auto
  ultimately show ?case by blast
qed

lemma confirmTransaction_Inr:
  assumes "confirmTransaction db tape now transactionId organizerId = (Inr t, db')"
  shows "\<exists>transaction.
           find (\<lambda>x. t_id x = transactionId) (transactions db) = Some transaction
           \<and> t_status transaction = WAITING_CONFIRMATION
           \<and> t = transaction\<lparr>t_status := DONE, t_updatedAt := now\<rparr>
           \<and> transactions db' =
               updateFirst (\<lambda>x. t_id x = transactionId)
                 (\<lambda>x. x\<lparr>t_status := DONE, t_updatedAt := now\<rparr>) (transactions db)
           \<and> createAttendees tape t 0 (nat (t_ticketQty t)) (attendees db)
               = (None, attendees db')"
  using assms
  by (auto simp: confirmTransaction_def Let_def update_Inr_iff
      split: if_splits option.splits sum.splits prod.splits)

text \<open>
  Claim C8. Every successful \<^verbatim>\<open>confirmTransaction\<close> found the transaction in
  \<open>WAITING_CONFIRMATION\<close>, leaves it \<open>DONE\<close> in the database, and appends exactly one
  attendee row per unit of its quantity, each of that transaction and with a
  non-empty check-in token, the new tokens pairwise distinct and distinct from the
  token of every attendee that existed before; the rows of that transaction grow by
  the quantity.
\<close>

theorem confirmTransaction_issues_tickets:
  assumes "confirmTransaction db tape now transactionId organizerId = (Inr t, db')"
  shows "t_status t = DONE \<and> t_id t = transactionId
         \<and> find (\<lambda>x. t_id x = transactionId) (transactions db') = Some t
         \<and> (\<exists>transaction.
               find (\<lambda>x. t_id x = transactionId) (transactions db) = Some transaction
               \<and> t_status transaction = WAITING_CONFIRMATION
               \<and> t_ticketQty transaction = t_ticketQty t)
         \<and> (\<exists>new. attendees db' = attendees db @ new
               \<and> length new = nat (t_ticketQty t)
               \<and> list_all (\<lambda>a. a_transactionId a = transactionId \<and> a_qrToken a \<noteq> []) new
               \<and> distinct (map a_qrToken new)
               \<and> set (map a_qrToken new) \<inter> set (map a_qrToken (attendees db)) = {})
         \<and> length (filter (\<lambda>a. a_transactionId a = transactionId) (attendees db'))
             = length (filter (\<lambda>a. a_transactionId a = transactionId) (attendees db))
               + nat (t_ticketQty t)"
proof -
  from confirmTransaction_Inr [OF assms] obtain transaction where
    f: "find (\<lambda>x. t_id x = transactionId) (transactions db) = Some transaction" and
    w: "t_status transaction = WAITING_CONFIRMATION" and
    t: "t = transaction\<lparr>t_status := DONE, t_updatedAt := now\<rparr>" and
    u: "transactions db' =
          updateFirst (\<lambda>x. t_id x = transactionId)
            (\<lambda>x. x\<lparr>t_status := DONE, t_updatedAt := now\<rparr>) (transactions db)" and
    c: "createAttendees tape t 0 (nat (t_ticketQty t)) (attendees db) = (None, attendees db')"
    by blast
  from find_Some_set [OF f] have i: "t_id transaction = transactionId" by simp
  have a: "t_status t = DONE" "t_id t = transactionId" "t_ticketQty transaction = t_ticketQty t"
    using t i by simp_all
  have b: "find (\<lambda>x. t_id x = transactionId) (transactions db') = Some t"
    unfolding u t using find_updateFirst [OF f] i by simp
  from createAttendees_None [OF c] a(2) obtain new where
    n: "attendees db' = attendees db @ new" "length new = nat (t_ticketQty t)"
       "list_all (\<lambda>a. a_transactionId a = transactionId \<and> a_qrToken a \<noteq> []) new"
       "distinct (map a_qrToken new)"
       "set (map a_qrToken new) \<inter> set (map a_qrToken (attendees db)) = {}"
    by auto
  have "filter (\<lambda>a. a_transactionId a = transactionId) new = new"
    using n(3) by (simp add: list_all_iff filter_id_conv)
  then have d: "length (filter (\<lambda>a. a_transactionId a = transactionId) (attendees db'))
             = length (filter (\<lambda>a. a_transactionId a = transactionId) (attendees db))
               + nat (t_ticketQty t)"
    using n(1,2) by simp
  from a b f w n d show ?thesis by blast
qed

theorem confirmTransaction_issues_tickets_witness:
  "\<exists>t db'. confirmTransaction paidDb countingTape 3000 1 2 = (Inr t, db')
      \<and> t_status t = DONE \<and> t_ticketQty t = 3
      \<and> length (attendees db') = 3
      \<and> list_all (\<lambda>a. a_transactionId a = 1 \<and> a_qrToken a \<noteq> []) (attendees db')
      \<and> distinct (map a_qrToken (attendees db'))"
proof -
  have "map_sum id t_ticketQty (fst (confirmTransaction paidDb countingTape 3000 1 2)) = Inr 3"
    unfolding paidDb_def by code_simp
  then obtain t db' where
    r: "confirmTransaction paidDb countingTape 3000 1 2 = (Inr t, db')" and q: "t_ticketQty t = 3"
    by (cases "confirmTransaction paidDb countingTape 3000 1 2";
        cases "fst (confirmTransaction paidDb countingTape 3000 1 2)") auto
  have e: "attendees paidDb = []"
    unfolding paidDb_def by code_simp
  from confirmTransaction_issues_tickets [OF r] q e
  have "t_status t = DONE \<and> length (attendees db') = 3
        \<and> list_all (\<lambda>a. a_transactionId a = 1 \<and> a_qrToken a \<noteq> []) (attendees db')
        \<and> distinct (map a_qrToken (attendees db'))"
    by auto
  with r q show ?thesis by blast
qed

section \<open>Check-in\<close>

lemma checkIn_already:
  assumes "find (\<lambda>a. a_qrToken a = qrToken) (attendees db) = Some attendee"
    and "find (\<lambda>t. t_id t = a_transactionId attendee) (transactions db) = Some transaction"
    and "t_status transaction = DONE"
    and "find (\<lambda>e. ev_id e = a_eventId attendee) (events db) = Some event"
    and "case ev_endDate event of None \<Rightarrow> True | Some endDate \<Rightarrow> now \<le> endDate"
    and "a_checkedIn attendee"
  shows "checkIn db now stamp shown qrToken
           = (Inr \<lparr>r_success = False, r_message = ''Already checked in'',
                    r_checkedInAt = a_checkedInAt attendee\<rparr>, db)"
  using assms by (auto simp: checkIn_def split: option.splits)

lemma checkIn_first:
  assumes "find (\<lambda>a. a_qrToken a = qrToken) (attendees db) = Some attendee"
    and "find (\<lambda>t. t_id t = a_transactionId attendee) (transactions db) = Some transaction"
    and "t_status transaction = DONE"
    and "find (\<lambda>e. ev_id e = a_eventId attendee) (events db) = Some event"
    and "case ev_endDate event of None \<Rightarrow> True | Some endDate \<Rightarrow> now \<le> endDate"
    and "\<not> a_checkedIn attendee"
  shows "checkIn db now stamp shown qrToken
           = (Inr \<lparr>r_success = True, r_message = ''Check-in successful!'',
                    r_checkedInAt = Some shown\<rparr>,
              db\<lparr>attendees :=
                   updateFirst (\<lambda>a. a_qrToken a = qrToken)
                     (\<lambda>a. a\<lparr>a_checkedIn := True, a_checkedInAt := Some stamp\<rparr>)
                     (attendees db)\<rparr>)"
  using assms by (auto simp: checkIn_def update_def split: option.splits)

text \<open>
  Claim C9. For every attendee token whose transaction is \<open>DONE\<close> and whose event has
  not ended at either call, the first \<^verbatim>\<open>checkIn\<close> marks the attendee (or, when it was
  marked already, reports that and changes nothing), and the second call changes
  nothing: it returns the database the first call left and the informational result
  ``Already checked in'' carrying the stored \<open>checkedInAt\<close>, which is the stamp of the
  first call (or the earlier one, when the attendee was marked before).
\<close>

theorem checkIn_idempotent:
  assumes "find (\<lambda>a. a_qrToken a = qrToken) (attendees db) = Some attendee"
    and "find (\<lambda>t. t_id t = a_transactionId attendee) (transactions db) = Some transaction"
    and "t_status transaction = DONE"
    and "find (\<lambda>e. ev_id e = a_eventId attendee) (events db) = Some event"
    and "case ev_endDate event of None \<Rightarrow> True | Some endDate \<Rightarrow> now1 \<le> endDate"
    and "case ev_endDate event of None \<Rightarrow> True | Some endDate \<Rightarrow> now2 \<le> endDate"
  shows "checkIn db now1 stamp1 shown1 qrToken
           = (if a_checkedIn attendee
              then (Inr \<lparr>r_success = False, r_message = ''Already checked in'',
                          r_checkedInAt = a_checkedInAt attendee\<rparr>, db)
              else (Inr \<lparr>r_success = True, r_message = ''Check-in successful!'',
                          r_checkedInAt = Some shown1\<rparr>,
                    db\<lparr>attendees :=
                         updateFirst (\<lambda>a. a_qrToken a = qrToken)
                           (\<lambda>a. a\<lparr>a_checkedIn := True, a_checkedInAt := Some stamp1\<rparr>)
                           (attendees db)\<rparr>))
         \<and> checkIn (snd (checkIn db now1 stamp1 shown1 qrToken)) now2 stamp2 shown2 qrToken
             = (Inr \<lparr>r_success = False, r_message = ''Already checked in'',
                      r_checkedInAt =
                        (if a_checkedIn attendee then a_checkedInAt attendee else Some stamp1)\<rparr>,
                snd (checkIn db now1 stamp1 shown1 qrToken))
         \<and> map_option (\<lambda>a. (a_checkedIn a, a_checkedInAt a))
               (find (\<lambda>a. a_qrToken a = qrToken)
                  (attendees (snd (checkIn db now1 stamp1 shown1 qrToken))))
             = Some (True, if a_checkedIn attendee then a_checkedInAt attendee else Some stamp1)"
proof (cases "a_checkedIn attendee")
  case True
  from checkIn_already [OF assms(1-5) True] checkIn_already [OF assms(1-4) assms(6) True]
    assms(1) True
  show ?thesis by simp
next
  case False
  let ?att = "attendee\<lparr>a_checkedIn := True, a_checkedInAt := Some stamp1\<rparr>"
  let ?db1 = "db\<lparr>attendees :=
                   updateFirst (\<lambda>a. a_qrToken a = qrToken)
                     (\<lambda>a. a\<lparr>a_checkedIn := True, a_checkedInAt := Some stamp1\<rparr>)
                     (attendees db)\<rparr>"
  from find_Some_set [OF assms(1)] have k: "a_qrToken attendee = qrToken" by simp
  have f1: "find (\<lambda>a. a_qrToken a = qrToken) (attendees ?db1) = Some ?att"
    using find_updateFirst [OF assms(1),
        of "\<lambda>a. a\<lparr>a_checkedIn := True, a_checkedInAt := Some stamp1\<rparr>"] k
    by simp
  have c1: "checkIn db now1 stamp1 shown1 qrToken
              = (Inr \<lparr>r_success = True, r_message = ''Check-in successful!'',
                       r_checkedInAt = Some shown1\<rparr>, ?db1)"
    using checkIn_first [OF assms(1-5) False] .
  have c2: "checkIn ?db1 now2 stamp2 shown2 qrToken
              = (Inr \<lparr>r_success = False, r_message = ''Already checked in'',
                       r_checkedInAt = a_checkedInAt ?att\<rparr>, ?db1)"
    by (rule checkIn_already [OF f1, of transaction event]) (use assms in simp_all)
  from c1 c2 f1 False show ?thesis by simp
qed

theorem checkIn_idempotent_witness:
  "map a_checkedInAt (attendees confirmedDb) = [None, None, None]
   \<and> fst (checkIn confirmedDb 4000 4001 4002
            ''000102030405060708090a0b0c0d0e0f101112131415161718191a1b1c1d1e1f'')
       = Inr \<lparr>r_success = True, r_message = ''Check-in successful!'',
                r_checkedInAt = Some 4002\<rparr>
   \<and> checkIn (snd (checkIn confirmedDb 4000 4001 4002
                     ''000102030405060708090a0b0c0d0e0f101112131415161718191a1b1c1d1e1f''))
        5000 5001 5002 ''000102030405060708090a0b0c0d0e0f101112131415161718191a1b1c1d1e1f''
       = (Inr \<lparr>r_success = False, r_message = ''Already checked in'',
                r_checkedInAt = Some 4001\<rparr>,
          snd (checkIn confirmedDb 4000 4001 4002
                 ''000102030405060708090a0b0c0d0e0f101112131415161718191a1b1c1d1e1f''))"
proof -
  let ?tok = "''000102030405060708090a0b0c0d0e0f101112131415161718191a1b1c1d1e1f''"
  let ?att = "\<lparr>a_transactionId = 1, a_userId = 7, a_eventId = 1, a_ticketTypeId = 1,
               a_qrToken = ?tok, a_checkedIn = False, a_checkedInAt = None\<rparr>"
  let ?tr = "\<lparr>t_id = 1, t_userId = 7, t_eventId = 1, t_ticketTypeId = 1, t_voucherId = None,
              t_couponId = None, t_ticketQty = 3, t_totalPrice = 300000, t_pointsUsed = 0,
              t_finalPrice = 300000, t_expiredAt = 7201000, t_status = DONE,
              t_paymentProof = Some ''proof.png'', t_rejectionReason = None,
              t_updatedAt = 3000\<rparr>"
  let ?ev = "\<lparr>ev_id = 1, ev_organizerId = 1, ev_title = ''Expo'',
              ev_endDate = Some (40 * 86400000)\<rparr>"
  have a: "find (\<lambda>a. a_qrToken a = ?tok) (attendees confirmedDb) = Some ?att"
    unfolding confirmedDb_def paidDb_def by code_simp
  have t: "find (\<lambda>t. t_id t = a_transactionId ?att) (transactions confirmedDb) = Some ?tr"
    unfolding confirmedDb_def paidDb_def by code_simp
  have s: "t_status ?tr = DONE" by simp
  have e: "find (\<lambda>e. ev_id e = a_eventId ?att) (events confirmedDb) = Some ?ev"
    unfolding confirmedDb_def paidDb_def by code_simp
  have n1: "case ev_endDate ?ev of None \<Rightarrow> True | Some endDate \<Rightarrow> 4000 \<le> endDate" by simp
  have n2: "case ev_endDate ?ev of None \<Rightarrow> True | Some endDate \<Rightarrow> 5000 \<le> endDate" by simp
  have m: "map a_checkedInAt (attendees confirmedDb) = [None, None, None]"
    unfolding confirmedDb_def paidDb_def by code_simp
  note th = checkIn_idempotent [OF a t s e n1 n2, of 4001 4002 5001 5002]
  have c1: "fst (checkIn confirmedDb 4000 4001 4002 ?tok)
              = Inr \<lparr>r_success = True, r_message = ''Check-in successful!'',
                       r_checkedInAt = Some 4002\<rparr>"
    using th [THEN conjunct1] by simp
  have c2: "checkIn (snd (checkIn confirmedDb 4000 4001 4002 ?tok)) 5000 5001 5002 ?tok
              = (Inr \<lparr>r_success = False, r_message = ''Already checked in'',
                       r_checkedInAt = Some 4001\<rparr>,
                 snd (checkIn confirmedDb 4000 4001 4002 ?tok))"
    using th [THEN conjunct2, THEN conjunct1] by simp
  show ?thesis
    by (intro conjI) (rule m, rule c1, rule c2)
qed

section \<open>The self-purchase guard\<close>

lemma createTransaction_never_changes_on_error:
  "isl (fst (createTransaction db now userId eventId body)) \<Longrightarrow>
   snd (createTransaction db now userId eventId body) = db"
  by (cases "createTransaction db now userId eventId body")
     (auto simp: isl_def dest: createTransaction_Inl)

lemma own_event_refused:
  assumes ev: "find (\<lambda>e. ev_id e = eventId) (events db) = Some event"
    and own: "ownEvent db userId event"
  shows "isl (fst (createTransaction db now userId eventId body))"
proof (cases "fst (createTransaction db now userId eventId body)")
  case (Inl e)
  then show ?thesis by simp
next
  case (Inr t)
  then obtain db' where r: "createTransaction db now userId eventId body = (Inr t, db')"
    by (cases "createTransaction db now userId eventId body") simp
  from createTransaction_Inr [OF r] obtain ticketType :: TicketType and event' :: Event where
    "find (\<lambda>e. ev_id e = tt_eventId ticketType) (events db) = Some event'"
    "tt_eventId ticketType = eventId" "\<not> ownEvent db userId event'"
    by blast
  with ev own show ?thesis by simp
qed

lemma own_event_forbidden:
  assumes ev: "find (\<lambda>e. ev_id e = eventId) (events db) = Some event"
    and own: "ownEvent db userId event"
    and q: "0 < b_quantity body" and p: "0 \<le> pointsRequested body"
    and tt: "find (\<lambda>tt. tt_id tt = b_ticketTypeId body) (ticketTypes db) = Some ticketType"
    and te: "tt_eventId ticketType = eventId"
  shows "createTransaction db now userId eventId body
           = (Inl (ApiError ''You cannot purchase tickets for your own event'' 403), db)"
  using assms by (simp add: createTransaction_def createTransactionTx_def)

lemma ownEvent_iff:
  "ownEvent db userId event \<longleftrightarrow>
     ev_organizerId event \<noteq> 0
     \<and> (\<exists>organizer. find (\<lambda>organizer. org_id organizer = ev_organizerId event) (organizers db)
                         = Some organizer \<and> org_userId organizer = userId)"
  by (auto simp: ownEvent_def split: option.splits)

text \<open>
  Claim C10, as the code has it. When the purchasing user is the organizer who owns
  the event (organizer ids are positive), \<^verbatim>\<open>createTransaction\<close> always fails and leaves
  the database unchanged, and its error is that of the first check that fails, in the
  order of the source: the quantity error 400 (line 35), the negative-points error 400
  (line 40), the missing ticket type 404 (line 53), the ticket type of another event
  400 (line 57), and for a request that passes these the permission error 403 of the
  guard. (For a ticket type of another event the model has one more branch, the
  event row of that ticket type missing, which the foreign key excludes.)
\<close>

theorem own_event_purchase_refused:
  assumes "find (\<lambda>e. ev_id e = eventId) (events db) = Some event"
    and "ev_organizerId event \<noteq> 0"
    and "find (\<lambda>organizer. org_id organizer = ev_organizerId event) (organizers db)
           = Some organizer"
    and "org_userId organizer = userId"
  shows "createTransaction db now userId eventId body =
           (Inl (if b_quantity body \<le> 0
                 then ApiError ''Quantity must be greater than 0'' 400
                 else if pointsRequested body < 0
                 then ApiError ''Points to use cannot be negative'' 400
                 else (case find (\<lambda>tt. tt_id tt = b_ticketTypeId body) (ticketTypes db) of
                         None \<Rightarrow> ApiError ''Ticket type not found'' 404
                       | Some ticketType \<Rightarrow>
                           if tt_eventId ticketType = eventId
                           then ApiError ''You cannot purchase tickets for your own event'' 403
                           else (case find (\<lambda>e. ev_id e = tt_eventId ticketType) (events db) of
                                   None \<Rightarrow> PrismaError ''required relation event is missing''
                                 | Some other \<Rightarrow>
                                     ApiError ''Ticket type does not belong to this event'' 400))),
            db)"
proof -
  have own: "ownEvent db userId event"
    using assms(2-4) by (simp add: ownEvent_iff)
  show ?thesis
    using assms(1) own
    by (simp add: createTransaction_def createTransactionTx_def split: option.splits)
qed

theorem own_event_purchase_refused_witness:
  "find (\<lambda>e. ev_id e = 1) (events seedDb)
     = Some \<lparr>ev_id = 1, ev_organizerId = 1, ev_title = ''Expo'', ev_endDate = Some (40 * 86400000)\<rparr>
   \<and> find (\<lambda>organizer. org_id organizer = 1) (organizers seedDb)
       = Some \<lparr>org_id = 1, org_userId = 2\<rparr>
   \<and> createTransaction seedDb 1000 2 1 (orderBody 1 None None)
       = (Inl (ApiError ''You cannot purchase tickets for your own event'' 403), seedDb)
   \<and> createTransaction seedDb 1000 2 1 (orderBody 0 None None)
       = (Inl (ApiError ''Quantity must be greater than 0'' 400), seedDb)
   \<and> createTransaction seedDb 1000 2 1 (orderBody 1 None (Some (- 5)))
       = (Inl (ApiError ''Points to use cannot be negative'' 400), seedDb)
   \<and> createTransaction seedDb 1000 2 1
        \<lparr>b_ticketTypeId = 9, b_quantity = 1, b_voucherCode = None, b_couponCode = None,
         b_pointsToUse = None\<rparr>
       = (Inl (ApiError ''Ticket type not found'' 404), seedDb)"
proof -
  let ?ev = "\<lparr>ev_id = 1, ev_organizerId = 1, ev_title = ''Expo'', ev_endDate = Some (40 * 86400000)\<rparr>"
  let ?org = "\<lparr>org_id = 1, org_userId = 2\<rparr>"
  have e: "find (\<lambda>e. ev_id e = 1) (events seedDb) = Some ?ev"
    by (simp add: seedDb_def)
  have z: "ev_organizerId ?ev \<noteq> 0" by simp
  have o: "find (\<lambda>organizer. org_id organizer = ev_organizerId ?ev) (organizers seedDb) = Some ?org"
    by (simp add: seedDb_def)
  have u: "org_userId ?org = 2" by simp
  note th = own_event_purchase_refused [OF e z o u, of 1000]
  have a: "createTransaction seedDb 1000 2 1 (orderBody 1 None None)
             = (Inl (ApiError ''You cannot purchase tickets for your own event'' 403), seedDb)"
    using th [of "orderBody 1 None None"]
    by (simp add: orderBody_def pointsRequested_def seedDb_def)
  have b: "createTransaction seedDb 1000 2 1 (orderBody 0 None None)
             = (Inl (ApiError ''Quantity must be greater than 0'' 400), seedDb)"
    using th [of "orderBody 0 None None"] by (simp add: orderBody_def)
  have c: "createTransaction seedDb 1000 2 1 (orderBody 1 None (Some (- 5)))
             = (Inl (ApiError ''Points to use cannot be negative'' 400), seedDb)"
    using th [of "orderBody 1 None (Some (- 5))"]
    by (simp add: orderBody_def pointsRequested_def)
  have d: "createTransaction seedDb 1000 2 1
             \<lparr>b_ticketTypeId = 9, b_quantity = 1, b_voucherCode = None, b_couponCode = None,
              b_pointsToUse = None\<rparr>
           = (Inl (ApiError ''Ticket type not found'' 404), seedDb)"
    using th [of "\<lparr>b_ticketTypeId = 9, b_quantity = 1, b_voucherCode = None,
                   b_couponCode = None, b_pointsToUse = None\<rparr>"]
    by (simp add: pointsRequested_def seedDb_def)
  from o have o': "find (\<lambda>organizer. org_id organizer = 1) (organizers seedDb) = Some ?org"
    by simp
  show ?thesis
    by (intro conjI) (rule e, rule o', rule a, rule b, rule c, rule d)
qed

text \<open>
  The claim as stated fails: organizer user 2 asking for zero seats of the own event
  is refused with the quantity error 400, not with a permission error.
\<close>

theorem own_event_purchase_counterexample:
  "map (ownEvent seedDb 2) (events seedDb) = [True]
   \<and> fst (createTransaction seedDb 1000 2 1 (orderBody 0 None None))
       = Inl (ApiError ''Quantity must be greater than 0'' 400)"
  by code_simp

section \<open>The price of a successful order\<close>

text \<open>
  Beside claim C4: what the code does compute. A fixed voucher takes
  \<open>min discountAmount subtotal\<close>; the coupon takes the minimum of its amount and of what
  the voucher left; the stored final price is
  \<open>max 0 (subtotal - voucherDiscount - couponDiscount - pointsUsed)\<close>.
\<close>

lemma applyVoucher_Inr:
  assumes "applyVoucher db now eventId voucherCode subtotal = Inr (vd, vid)"
  shows "(if truthyStr voucherCode
          then \<exists>voucher.
                 find (\<lambda>v. v_eventId v = eventId \<and> Some (v_code v) = voucherCode
                           \<and> v_startDate v \<le> now \<and> now \<le> v_endDate v) (vouchers db)
                   = Some voucher
                 \<and> v_usedCount voucher < v_usageLimit voucher
                 \<and> vd = voucherDiscountOf subtotal voucher \<and> vid = Some (v_id voucher)
          else vd = 0 \<and> vid = None)"
  using assms by (auto simp: applyVoucher_def split: if_splits option.splits)

lemma voucherDiscountOf_fixed:
  "v_discountType voucher = FIXED \<Longrightarrow>
   voucherDiscountOf subtotal voucher = min (v_discountAmount voucher) subtotal"
  by (simp add: voucherDiscountOf_def)

lemma applyCoupon_Inr:
  assumes "applyCoupon db now userId couponCode remaining = Inr (cd, cid)"
  shows "(if truthyStr couponCode
          then \<exists>coupon.
                 find (\<lambda>c. c_userId c = userId \<and> Some (c_code c) = couponCode
                           \<and> now \<le> c_expiredAt c \<and> \<not> c_isUsed c) (coupons db)
                   = Some coupon
                 \<and> cd = min (c_discountAmount coupon) remaining \<and> cid = Some (c_id coupon)
          else cd = 0 \<and> cid = None)"
  using assms by (auto simp: applyCoupon_def split: if_splits option.splits)

lemma createTransaction_pricing:
  assumes "createTransaction db now userId eventId body = (Inr t, db')"
  shows "\<exists>vd vid cd cid.
           applyVoucher db now eventId (b_voucherCode body) (t_totalPrice t) = Inr (vd, vid)
           \<and> applyCoupon db now userId (b_couponCode body) (t_totalPrice t - vd) = Inr (cd, cid)
           \<and> t_voucherId t = vid \<and> t_couponId t = cid
           \<and> t_finalPrice t = max 0 (t_totalPrice t - vd - cd - t_pointsUsed t)"
proof -
  from createTransaction_Inr [OF assms] obtain ticketType and event :: Event and pr where
    p: "priceOrder db now userId eventId body ticketType = Inr pr" and
    c: "commitOrder db now userId eventId body (ev_title event) pr = Inr (t, db')"
    by blast
  from commitOrder_Inr [OF c] have
    "t_totalPrice t = pr_subtotal pr" "t_pointsUsed t = pr_pointsToDeduct pr"
    "t_finalPrice t = pr_finalPrice pr" "t_voucherId t = pr_voucherId pr"
    "t_couponId t = pr_couponId pr"
    by simp_all
  note t = this
  from priceOrder_Inr [OF p] obtain vd vid cd cid where
    v: "applyVoucher db now eventId (b_voucherCode body) (pr_subtotal pr) = Inr (vd, vid)" and
    k: "applyCoupon db now userId (b_couponCode body) (pr_subtotal pr - vd) = Inr (cd, cid)" and
    i: "pr_voucherId pr = vid" "pr_couponId pr = cid" and
    f: "pr_finalPrice pr = max 0 (pr_subtotal pr - vd - cd - pr_pointsToDeduct pr)"
    by blast
  show ?thesis
    unfolding t using v k i f by blast
qed

section \<open>Create, then roll back, with no other matching ledger entry\<close>

text \<open>
  Beside claim C3: when the user's ledger holds no other used entry of the same
  amount whose description matches (and coupon ids are unique, as a primary key is),
  rolling back a transaction that was just created restores the ticket types, the
  vouchers, the coupons, the users and the point ledger exactly; the database
  differs from the one before the creation only by the transaction's row.
\<close>

lemma updateFirst_undo:
  "find P rows = Some r \<Longrightarrow> P (f r) \<Longrightarrow> g (f r) = r \<Longrightarrow>
   updateFirst P g (updateFirst P f rows) = rows"
  by (induction rows) (auto split: if_splits)

lemma fold_max_ge: "a \<le> fold max xs (a::int)"
proof (induction xs arbitrary: a)
  case Nil
  then show ?case by simp
next
  case (Cons x xs)
  have "a \<le> max x a" by simp
  also have "\<dots> \<le> fold max xs (max x a)" by (rule Cons.IH)
  finally show ?case by simp
qed

lemma fold_max_upper: "x \<in> set xs \<Longrightarrow> x \<le> fold max xs (a::int)"
proof (induction xs arbitrary: a)
  case Nil
  then show ?case by simp
next
  case (Cons y ys)
  show ?case
  proof (cases "x = y")
    case True
    have "x \<le> max y a" using True by simp
    also have "\<dots> \<le> fold max ys (max y a)" by (rule fold_max_ge)
    finally show ?thesis by simp
  next
    case False
    with Cons.prems have "x \<in> set ys" by simp
    from Cons.IH [OF this] show ?thesis by simp
  qed
qed

lemma nextId_fresh: "find (\<lambda>x. t_id x = nextId (map t_id txs)) txs = None"
proof -
  have "\<forall>x \<in> set txs. t_id x < nextId (map t_id txs)"
  proof
    fix x assume "x \<in> set txs"
    then have "t_id x \<in> set (map t_id txs)" by simp
    from fold_max_upper [OF this, of 0] show "t_id x < nextId (map t_id txs)"
      by (simp add: nextId_def)
  qed
  then show ?thesis by (fastforce simp: find_None_iff)
qed

lemma find_snoc: "find P rows = None \<Longrightarrow> P r \<Longrightarrow> find P (rows @ [r]) = Some r"
  by (induction rows) (auto split: if_splits)

lemma find_by_distinct_key:
  "distinct (map k rows) \<Longrightarrow> r \<in> set rows \<Longrightarrow> find (\<lambda>y. k y = k r) rows = Some r"
  by (induction rows) auto

lemma strContains_self_append: "strContains (s @ ys) s"
proof (cases "s @ ys")
  case Nil
  then show ?thesis by simp
next
  case (Cons c cs)
  have "take (length s) (s @ ys) = s" by simp
  then have "take (length s) (c # cs) = s" using Cons by simp
  then have "strContains (c # cs) s" by simp
  then show ?thesis using Cons by simp
qed

lemma strContains_append: "strContains (xs @ s @ ys) s"
  by (induction xs) (auto simp: strContains_self_append)

lemma usage_description:
  "strContains (''Used for transaction on event: '' @ title) ''transaction on event''"
  using strContains_append [of "''Used for ''" "''transaction on event''" "'': '' @ title"]
  by simp

lemma update_undo:
  assumes "find P rows = Some r" "P (f r)" "g (f r) = r"
  shows "update P g (updateFirst P f rows) = Inr rows"
proof -
  have "find P (updateFirst P f rows) = Some (f r)"
    using assms(1,2) by (rule find_updateFirst)
  moreover have "updateFirst P g (updateFirst P f rows) = rows"
    using assms by (rule updateFirst_undo)
  ultimately show ?thesis by (simp add: update_def)
qed

lemma commitOrder_db:
  assumes "commitOrder db now userId eventId body title pr = Inr (t, db')"
  shows "db' =
           db\<lparr>ticketTypes :=
                updateFirst (\<lambda>tt. tt_id tt = b_ticketTypeId body)
                  (\<lambda>tt. tt\<lparr>tt_availableSeat := tt_availableSeat tt - b_quantity body,
                             tt_sold := tt_sold tt + b_quantity body\<rparr>) (ticketTypes db),
              vouchers :=
                (if truthyNum (pr_voucherId pr)
                 then updateFirst (\<lambda>v. Some (v_id v) = pr_voucherId pr)
                        (\<lambda>v. v\<lparr>v_usedCount := v_usedCount v + 1\<rparr>) (vouchers db)
                 else vouchers db),
              coupons :=
                (if truthyNum (pr_couponId pr)
                 then updateFirst (\<lambda>c. Some (c_id c) = pr_couponId pr)
                        (\<lambda>c. c\<lparr>c_isUsed := True\<rparr>) (coupons db)
                 else coupons db),
              users :=
                (if 0 < pr_pointsToDeduct pr
                 then updateFirst (\<lambda>u. u_id u = userId)
                        (\<lambda>u. u\<lparr>u_point := u_point u - pr_pointsToDeduct pr\<rparr>) (users db)
                 else users db),
              points :=
                (if 0 < pr_pointsToDeduct pr
                 then points db @
                        [\<lparr>p_userId = userId, p_amount = - pr_pointsToDeduct pr,
                          p_description = ''Used for transaction on event: '' @ title,
                          p_type = USED, p_createdAt = now, p_expiredAt = None\<rparr>]
                 else points db),
              transactions := transactions db @ [t]\<rparr>"
    and "\<exists>r. find (\<lambda>tt. tt_id tt = b_ticketTypeId body) (ticketTypes db) = Some r"
    and "truthyNum (pr_voucherId pr) \<Longrightarrow>
           \<exists>r. find (\<lambda>v. Some (v_id v) = pr_voucherId pr) (vouchers db) = Some r"
    and "truthyNum (pr_couponId pr) \<Longrightarrow>
           \<exists>r. find (\<lambda>c. Some (c_id c) = pr_couponId pr) (coupons db) = Some r"
    and "0 < pr_pointsToDeduct pr \<Longrightarrow> \<exists>r. find (\<lambda>u. u_id u = userId) (users db) = Some r"
  using assms
  by (auto simp: commitOrder_def Let_def create_def update_Inr_iff
      split: if_splits sum.splits)

lemma create_then_rollback:
  assumes r: "createTransaction db now userId eventId body = (Inr t, db1)"
    and d: "distinct (map c_id (coupons db))"
    and n: "\<not> list_ex (\<lambda>p. p_userId p = userId \<and> p_type p = USED
                         \<and> strContains (p_description p) ''transaction on event''
                         \<and> p_amount p = - t_pointsUsed t) (points db)"
  shows "rollbackTransaction db1 (t_id t) = Inr (db\<lparr>transactions := transactions db @ [t]\<rparr>)"
proof -
  from createTransaction_Inr [OF r] obtain ticketType and event :: Event and pr where
    tt: "find (\<lambda>tt. tt_id tt = b_ticketTypeId body) (ticketTypes db) = Some ticketType" and
    p: "priceOrder db now userId eventId body ticketType = Inr pr" and
    c: "commitOrder db now userId eventId body (ev_title event) pr = Inr (t, db1)"
    by blast
  from commitOrder_Inr [OF c] have
    tq: "t_ticketQty t = b_quantity body" and
    ti: "t_ticketTypeId t = b_ticketTypeId body" and
    tv: "t_voucherId t = pr_voucherId pr" and
    tc: "t_couponId t = pr_couponId pr" and
    tp: "t_pointsUsed t = pr_pointsToDeduct pr" and
    tu: "t_userId t = userId" and
    tn: "t_id t = nextId (map t_id (transactions db))"
    by simp_all
  note db1 = commitOrder_db(1) [OF c]
  have tables:
    "ticketTypes db1 =
       updateFirst (\<lambda>tt. tt_id tt = b_ticketTypeId body)
         (\<lambda>tt. tt\<lparr>tt_availableSeat := tt_availableSeat tt - b_quantity body,
                    tt_sold := tt_sold tt + b_quantity body\<rparr>) (ticketTypes db)"
    "vouchers db1 =
       (if truthyNum (pr_voucherId pr)
        then updateFirst (\<lambda>v. Some (v_id v) = pr_voucherId pr)
               (\<lambda>v. v\<lparr>v_usedCount := v_usedCount v + 1\<rparr>) (vouchers db)
        else vouchers db)"
    "coupons db1 =
       (if truthyNum (pr_couponId pr)
        then updateFirst (\<lambda>c. Some (c_id c) = pr_couponId pr)
               (\<lambda>c. c\<lparr>c_isUsed := True\<rparr>) (coupons db)
        else coupons db)"
    "users db1 =
       (if 0 < pr_pointsToDeduct pr
        then updateFirst (\<lambda>u. u_id u = userId)
               (\<lambda>u. u\<lparr>u_point := u_point u - pr_pointsToDeduct pr\<rparr>) (users db)
        else users db)"
    "points db1 =
       (if 0 < pr_pointsToDeduct pr
        then points db @
               [\<lparr>p_userId = userId, p_amount = - pr_pointsToDeduct pr,
                 p_description = ''Used for transaction on event: '' @ ev_title event,
                 p_type = USED, p_createdAt = now, p_expiredAt = None\<rparr>]
        else points db)"
    "transactions db1 = transactions db @ [t]"
    "events db1 = events db" "organizers db1 = organizers db" "attendees db1 = attendees db"
    by (subst db1, simp)+
  have T: "find (\<lambda>x. t_id x = t_id t) (transactions db1) = Some t"
    unfolding tables(6) by (rule find_snoc) (simp_all add: tn nextId_fresh)
  have TT: "update (\<lambda>tt. tt_id tt = t_ticketTypeId t)
              (\<lambda>tt. tt\<lparr>tt_availableSeat := tt_availableSeat tt + t_ticketQty t,
                         tt_sold := tt_sold tt - t_ticketQty t\<rparr>) (ticketTypes db1)
            = Inr (ticketTypes db)"
    unfolding tables(1) ti tq
    by (rule update_undo [OF tt]) (use find_Some_set [OF tt] in simp_all)
  have V: "(if truthyNum (t_voucherId t)
            then update (\<lambda>v. Some (v_id v) = t_voucherId t)
                   (\<lambda>v. v\<lparr>v_usedCount := v_usedCount v - 1\<rparr>) (vouchers db1)
            else Inr (vouchers db1)) = Inr (vouchers db)"
  proof (cases "truthyNum (pr_voucherId pr)")
    case True
    from commitOrder_db(3) [OF c True] obtain v0 where
      v0: "find (\<lambda>v. Some (v_id v) = pr_voucherId pr) (vouchers db) = Some v0" by blast
    have "update (\<lambda>v. Some (v_id v) = pr_voucherId pr)
            (\<lambda>v. v\<lparr>v_usedCount := v_usedCount v - 1\<rparr>)
            (updateFirst (\<lambda>v. Some (v_id v) = pr_voucherId pr)
               (\<lambda>v. v\<lparr>v_usedCount := v_usedCount v + 1\<rparr>) (vouchers db))
          = Inr (vouchers db)"
      by (rule update_undo [OF v0]) (use find_Some_set [OF v0] in simp_all)
    with True show ?thesis by (simp add: tables(2) tv)
  next
    case False
    then show ?thesis by (simp add: tables(2) tv)
  qed
  have C: "(if truthyNum (t_couponId t)
            then update (\<lambda>c. Some (c_id c) = t_couponId t)
                   (\<lambda>c. c\<lparr>c_isUsed := False\<rparr>) (coupons db1)
            else Inr (coupons db1)) = Inr (coupons db)"
  proof (cases "truthyNum (pr_couponId pr)")
    case True
    from priceOrder_Inr [OF p] obtain vd cd where
      "applyCoupon db now userId (b_couponCode body) (pr_subtotal pr - vd)
         = Inr (cd, pr_couponId pr)"
      by blast
    from applyCoupon_Inr [OF this] True obtain coupon where
      f: "find (\<lambda>c. c_userId c = userId \<and> Some (c_code c) = b_couponCode body
                   \<and> now \<le> c_expiredAt c \<and> \<not> c_isUsed c) (coupons db) = Some coupon" and
      i: "pr_couponId pr = Some (c_id coupon)"
      by (auto simp: truthyNum_def split: if_splits)
    from find_Some_set [OF f] have m: "coupon \<in> set (coupons db)" and u: "\<not> c_isUsed coupon"
      by simp_all
    have c0: "find (\<lambda>c. Some (c_id c) = pr_couponId pr) (coupons db) = Some coupon"
      using find_by_distinct_key [OF d m] by (simp add: i)
    have "update (\<lambda>c. Some (c_id c) = pr_couponId pr) (\<lambda>c. c\<lparr>c_isUsed := False\<rparr>)
            (updateFirst (\<lambda>c. Some (c_id c) = pr_couponId pr)
               (\<lambda>c. c\<lparr>c_isUsed := True\<rparr>) (coupons db))
          = Inr (coupons db)"
      by (rule update_undo [OF c0]) (use u i in simp_all)
    with True show ?thesis by (simp add: tables(3) tc)
  next
    case False
    then show ?thesis by (simp add: tables(3) tc)
  qed
  have U: "(if 0 < t_pointsUsed t
            then update (\<lambda>u. u_id u = t_userId t)
                   (\<lambda>u. u\<lparr>u_point := u_point u + t_pointsUsed t\<rparr>) (users db1)
            else Inr (users db1)) = Inr (users db)"
  proof (cases "0 < pr_pointsToDeduct pr")
    case True
    from commitOrder_db(5) [OF c True] obtain u0 where
      u0: "find (\<lambda>u. u_id u = userId) (users db) = Some u0" by blast
    have "update (\<lambda>u. u_id u = userId)
            (\<lambda>u. u\<lparr>u_point := u_point u + pr_pointsToDeduct pr\<rparr>)
            (updateFirst (\<lambda>u. u_id u = userId)
               (\<lambda>u. u\<lparr>u_point := u_point u - pr_pointsToDeduct pr\<rparr>) (users db))
          = Inr (users db)"
      by (rule update_undo [OF u0]) (use find_Some_set [OF u0] in simp_all)
    with True show ?thesis by (simp add: tables(4) tp tu)
  next
    case False
    then show ?thesis by (simp add: tables(4) tp)
  qed
  have P: "(if 0 < t_pointsUsed t
            then deleteMany
                   (\<lambda>p. p_userId p = t_userId t \<and> p_type p = USED
                        \<and> strContains (p_description p) ''transaction on event''
                        \<and> p_amount p = - t_pointsUsed t) (points db1)
            else points db1) = points db"
  proof (cases "0 < pr_pointsToDeduct pr")
    case True
    have "filter (\<lambda>p. \<not> (p_userId p = userId \<and> p_type p = USED
                        \<and> strContains (p_description p) ''transaction on event''
                        \<and> p_amount p = - pr_pointsToDeduct pr)) (points db) = points db"
      using n by (simp add: tp list_ex_iff filter_id_conv)
    with True show ?thesis
      by (simp add: tables(5) tp tu deleteMany_def usage_description)
  next
    case False
    then show ?thesis by (simp add: tables(5) tp)
  qed
  have "db1\<lparr>ticketTypes := ticketTypes db, vouchers := vouchers db, coupons := coupons db,
            users := users db, points := points db\<rparr>
        = db\<lparr>transactions := transactions db @ [t]\<rparr>"
    by (subst db1) simp
  then show ?thesis
    unfolding rollbackTransaction_def by (simp add: T TT V C U P)
qed

section \<open>Points applied\<close>

lemma fifoLoop_ge: "currentBalance \<le> fifoLoop now es totalUsed currentBalance"
proof (induction es arbitrary: totalUsed currentBalance)
  case Nil
  then show ?case by simp
next
  case (Cons e es)
  let ?consumed = "if 0 < totalUsed then min (p_amount e) totalUsed else 0"
  let ?left = "p_amount e - ?consumed"
  let ?bal = "if 0 < ?left \<and> unexpired now e then currentBalance + ?left else currentBalance"
  have "currentBalance \<le> ?bal" by simp
  also have "?bal \<le> fifoLoop now es (totalUsed - ?consumed) ?bal" by (rule Cons.IH)
  finally show ?case by (simp add: Let_def)
qed

lemma calculateUserPointBalance_nonneg: "0 \<le> calculateUserPointBalance userId now tbl"
  unfolding calculateUserPointBalance_def by (rule fifoLoop_ge)

lemma insufficient_points:
  assumes over: "calculateUserPointBalance userId now (points db) < pointsRequested body"
    and q: "0 < b_quantity body"
    and tt: "find (\<lambda>tt. tt_id tt = b_ticketTypeId body) (ticketTypes db) = Some ticketType"
    and te: "tt_eventId ticketType = eventId"
    and ev: "find (\<lambda>e. ev_id e = eventId) (events db) = Some event"
    and own: "\<not> ownEvent db userId event"
    and seats: "b_quantity body \<le> tt_availableSeat ticketType"
    and v: "applyVoucher db now eventId (b_voucherCode body)
              (tt_price ticketType * b_quantity body) = Inr (vd, vid)"
    and c: "applyCoupon db now userId (b_couponCode body)
              (tt_price ticketType * b_quantity body - vd) = Inr (cd, cid)"
    and u: "find (\<lambda>u. u_id u = userId) (users db) = Some user"
  shows "createTransaction db now userId eventId body
           = (Inl (ApiError ''Insufficient valid points'' 400), db)"
proof -
  have p: "0 \<le> pointsRequested body"
    using over calculateUserPointBalance_nonneg [of userId now "points db"] by simp
  have "priceOrder db now userId eventId body ticketType
          = Inl (ApiError ''Insufficient valid points'' 400)"
    using over v c u by (simp add: priceOrder_def Let_def)
  then show ?thesis
    using q p tt te ev own seats
    by (simp add: createTransaction_def createTransactionTx_def)
qed

lemma priceOrder_user:
  "priceOrder db now userId eventId body ticketType = Inr pr \<Longrightarrow>
   \<exists>user. find (\<lambda>u. u_id u = userId) (users db) = Some user"
  by (auto simp: priceOrder_def Let_def split: if_splits option.splits sum.splits prod.splits)

lemma createTransaction_applies_points:
  assumes r: "createTransaction db now userId eventId body = (Inr t, db')"
  shows "\<exists>vd vid cd cid event user.
           find (\<lambda>e. ev_id e = eventId) (events db) = Some event
           \<and> find (\<lambda>u. u_id u = userId) (users db) = Some user
           \<and> applyVoucher db now eventId (b_voucherCode body) (t_totalPrice t) = Inr (vd, vid)
           \<and> applyCoupon db now userId (b_couponCode body) (t_totalPrice t - vd) = Inr (cd, cid)
           \<and> pointsRequested body \<le> calculateUserPointBalance userId now (points db)
           \<and> t_pointsUsed t =
               min (pointsRequested body)
                 (min (calculateUserPointBalance userId now (points db))
                      (t_totalPrice t - vd - cd))
           \<and> users db' =
               (if 0 < t_pointsUsed t
                then updateFirst (\<lambda>u. u_id u = userId)
                       (\<lambda>u. u\<lparr>u_point := u_point u - t_pointsUsed t\<rparr>) (users db)
                else users db)
           \<and> points db' =
               (if 0 < t_pointsUsed t
                then points db @
                       [\<lparr>p_userId = userId, p_amount = - t_pointsUsed t,
                         p_description = ''Used for transaction on event: '' @ ev_title event,
                         p_type = USED, p_createdAt = now, p_expiredAt = None\<rparr>]
                else points db)"
proof -
  from createTransaction_Inr [OF r] obtain ticketType and event :: Event and pr where
    e: "find (\<lambda>e. ev_id e = tt_eventId ticketType) (events db) = Some event" and
    te: "tt_eventId ticketType = eventId" and
    p: "priceOrder db now userId eventId body ticketType = Inr pr" and
    c: "commitOrder db now userId eventId body (ev_title event) pr = Inr (t, db')"
    by blast
  from commitOrder_Inr [OF c] have
    t: "t_totalPrice t = pr_subtotal pr" "t_pointsUsed t = pr_pointsToDeduct pr" by simp_all
  from priceOrder_user [OF p] obtain user where
    u: "find (\<lambda>u. u_id u = userId) (users db) = Some user" by blast
  from priceOrder_Inr [OF p] obtain vd vid cd cid where
    v: "applyVoucher db now eventId (b_voucherCode body) (pr_subtotal pr) = Inr (vd, vid)" and
    k: "applyCoupon db now userId (b_couponCode body) (pr_subtotal pr - vd) = Inr (cd, cid)" and
    b: "pointsRequested body \<le> calculateUserPointBalance userId now (points db)" and
    m: "pr_pointsToDeduct pr =
          min (pointsRequested body)
            (min (calculateUserPointBalance userId now (points db)) (pr_subtotal pr - vd - cd))"
    by blast
  note db' = commitOrder_db(1) [OF c]
  have us: "users db' =
               (if 0 < t_pointsUsed t
                then updateFirst (\<lambda>u. u_id u = userId)
                       (\<lambda>u. u\<lparr>u_point := u_point u - t_pointsUsed t\<rparr>) (users db)
                else users db)"
    by (subst db') (simp add: t)
  have ps: "points db' =
               (if 0 < t_pointsUsed t
                then points db @
                       [\<lparr>p_userId = userId, p_amount = - t_pointsUsed t,
                         p_description = ''Used for transaction on event: '' @ ev_title event,
                         p_type = USED, p_createdAt = now, p_expiredAt = None\<rparr>]
                else points db)"
    by (subst db') (simp add: t)
  have e': "find (\<lambda>e. ev_id e = eventId) (events db) = Some event"
    using e te by simp
  show ?thesis
    using e' u v k b m us ps unfolding t by blast
qed

text \<open>
  Claim C5, as the code has it. For every successful \<^verbatim>\<open>createTransaction\<close> the stored
  \<open>pointsUsed\<close> is \<open>p\<close>, the minimum of the points requested, the FIFO-computed balance
  and what remains payable after the voucher and the coupon discount, and the request
  did not exceed the balance. When \<open>p\<close> is positive, exactly \<open>p\<close> points are applied: the
  user's cached total is decremented by \<open>p\<close> and one used entry of amount \<open>-p\<close> is
  appended to the ledger; when it is not (nothing requested, or a voucher discount
  above the subtotal) users and ledger are left as they were. A request for more
  points than the computed balance never succeeds: the call fails and leaves the
  database unchanged, and when the request passes every check before line 167 the
  error is the insufficient-points error 400.
\<close>

theorem createTransaction_points:
  "(createTransaction db now userId eventId body = (Inr t, db') \<longrightarrow>
      (\<exists>vd vid cd cid event user.
          find (\<lambda>e. ev_id e = eventId) (events db) = Some event
          \<and> find (\<lambda>u. u_id u = userId) (users db) = Some user
          \<and> applyVoucher db now eventId (b_voucherCode body) (t_totalPrice t) = Inr (vd, vid)
          \<and> applyCoupon db now userId (b_couponCode body) (t_totalPrice t - vd) = Inr (cd, cid)
          \<and> pointsRequested body \<le> calculateUserPointBalance userId now (points db)
          \<and> t_pointsUsed t =
              min (pointsRequested body)
                (min (calculateUserPointBalance userId now (points db))
                     (t_totalPrice t - vd - cd))
          \<and> users db' =
              (if 0 < t_pointsUsed t
               then updateFirst (\<lambda>u. u_id u = userId)
                      (\<lambda>u. u\<lparr>u_point := u_point u - t_pointsUsed t\<rparr>) (users db)
               else users db)
          \<and> points db' =
              (if 0 < t_pointsUsed t
               then points db @
                      [\<lparr>p_userId = userId, p_amount = - t_pointsUsed t,
                        p_description = ''Used for transaction on event: '' @ ev_title event,
                        p_type = USED, p_createdAt = now, p_expiredAt = None\<rparr>]
               else points db)))
   \<and> (calculateUserPointBalance userId now (points db) < pointsRequested body \<longrightarrow>
        (\<exists>e. createTransaction db now userId eventId body = (Inl e, db)))
   \<and> (calculateUserPointBalance userId now (points db) < pointsRequested body
        \<and> 0 < b_quantity body
        \<and> find (\<lambda>tt. tt_id tt = b_ticketTypeId body) (ticketTypes db) = Some ticketType
        \<and> tt_eventId ticketType = eventId
        \<and> find (\<lambda>e. ev_id e = eventId) (events db) = Some ownerEvent
        \<and> \<not> ownEvent db userId ownerEvent
        \<and> b_quantity body \<le> tt_availableSeat ticketType
        \<and> applyVoucher db now eventId (b_voucherCode body)
             (tt_price ticketType * b_quantity body) = Inr (vd', vid')
        \<and> applyCoupon db now userId (b_couponCode body)
             (tt_price ticketType * b_quantity body - vd') = Inr (cd', cid')
        \<and> find (\<lambda>u. u_id u = userId) (users db) = Some buyer
        \<longrightarrow> createTransaction db now userId eventId body
              = (Inl (ApiError ''Insufficient valid points'' 400), db))"
proof (intro conjI impI)
  assume "createTransaction db now userId eventId body = (Inr t, db')"
  then show "\<exists>vd vid cd cid event user.
          find (\<lambda>e. ev_id e = eventId) (events db) = Some event
          \<and> find (\<lambda>u. u_id u = userId) (users db) = Some user
          \<and> applyVoucher db now eventId (b_voucherCode body) (t_totalPrice t) = Inr (vd, vid)
          \<and> applyCoupon db now userId (b_couponCode body) (t_totalPrice t - vd) = Inr (cd, cid)
          \<and> pointsRequested body \<le> calculateUserPointBalance userId now (points db)
          \<and> t_pointsUsed t =
              min (pointsRequested body)
                (min (calculateUserPointBalance userId now (points db))
                     (t_totalPrice t - vd - cd))
          \<and> users db' =
              (if 0 < t_pointsUsed t
               then updateFirst (\<lambda>u. u_id u = userId)
                      (\<lambda>u. u\<lparr>u_point := u_point u - t_pointsUsed t\<rparr>) (users db)
               else users db)
          \<and> points db' =
              (if 0 < t_pointsUsed t
               then points db @
                      [\<lparr>p_userId = userId, p_amount = - t_pointsUsed t,
                        p_description = ''Used for transaction on event: '' @ ev_title event,
                        p_type = USED, p_createdAt = now, p_expiredAt = None\<rparr>]
               else points db)"
    by (rule createTransaction_applies_points)
next
  assume "calculateUserPointBalance userId now (points db) < pointsRequested body"
  then show "\<exists>e. createTransaction db now userId eventId body = (Inl e, db)"
    by (rule createTransaction_fails_over_balance)
next
  assume a: "calculateUserPointBalance userId now (points db) < pointsRequested body
        \<and> 0 < b_quantity body
        \<and> find (\<lambda>tt. tt_id tt = b_ticketTypeId body) (ticketTypes db) = Some ticketType
        \<and> tt_eventId ticketType = eventId
        \<and> find (\<lambda>e. ev_id e = eventId) (events db) = Some ownerEvent
        \<and> \<not> ownEvent db userId ownerEvent
        \<and> b_quantity body \<le> tt_availableSeat ticketType
        \<and> applyVoucher db now eventId (b_voucherCode body)
             (tt_price ticketType * b_quantity body) = Inr (vd', vid')
        \<and> applyCoupon db now userId (b_couponCode body)
             (tt_price ticketType * b_quantity body - vd') = Inr (cd', cid')
        \<and> find (\<lambda>u. u_id u = userId) (users db) = Some buyer"
  show "createTransaction db now userId eventId body
          = (Inl (ApiError ''Insufficient valid points'' 400), db)"
    by (rule insufficient_points [of userId now db body ticketType eventId ownerEvent vd' vid' cd' cid' buyer])
       (use a in simp_all)
qed

theorem createTransaction_points_witness:
  "\<exists>t db'. createTransaction seedDb 1000 7 1 (orderBody 1 None (Some 1000)) = (Inr t, db')
      \<and> t_totalPrice t = 100000 \<and> t_pointsUsed t = 1000
      \<and> map u_point (users db') = [9000, 0]
      \<and> map p_amount (points db') = [10000, - 1000]
      \<and> createTransaction seedDb 1000 7 1 (orderBody 1 None (Some 20000))
          = (Inl (ApiError ''Insufficient valid points'' 400), seedDb)"
proof -
  have "map_sum id (\<lambda>t. (t_totalPrice t, t_pointsUsed t))
          (fst (createTransaction seedDb 1000 7 1 (orderBody 1 None (Some 1000))))
        = Inr (100000, 1000)"
    by code_simp
  then obtain t db' where
    r: "createTransaction seedDb 1000 7 1 (orderBody 1 None (Some 1000)) = (Inr t, db')" and
    t: "t_totalPrice t = 100000" "t_pointsUsed t = 1000"
    by (cases "createTransaction seedDb 1000 7 1 (orderBody 1 None (Some 1000))";
        cases "fst (createTransaction seedDb 1000 7 1 (orderBody 1 None (Some 1000)))") auto
  note th = createTransaction_points
  from th [of seedDb 1000 7 1 "orderBody 1 None (Some 1000)" t db'] r
  obtain event :: Event where
    us: "users db' =
           (if 0 < t_pointsUsed t
            then updateFirst (\<lambda>u. u_id u = 7)
                   (\<lambda>u. u\<lparr>u_point := u_point u - t_pointsUsed t\<rparr>) (users seedDb)
            else users seedDb)" and
    ps: "points db' =
           (if 0 < t_pointsUsed t
            then points seedDb @
                   [\<lparr>p_userId = 7, p_amount = - t_pointsUsed t,
                     p_description = ''Used for transaction on event: '' @ ev_title event,
                     p_type = USED, p_createdAt = 1000, p_expiredAt = None\<rparr>]
            else points seedDb)"
    by blast
  have u1: "map u_point (users db') = [9000, 0]"
    using us t by (simp add: seedDb_def)
  have p1: "map p_amount (points db') = [10000, - 1000]"
    using ps t by (simp add: seedDb_def)
  let ?tt = "\<lparr>tt_id = 1, tt_eventId = 1, tt_price = 100000, tt_totalSeat = 10,
              tt_availableSeat = 10, tt_sold = 0\<rparr>"
  let ?ev = "\<lparr>ev_id = 1, ev_organizerId = 1, ev_title = ''Expo'',
              ev_endDate = Some (40 * 86400000)\<rparr>"
  let ?u = "\<lparr>u_id = 7, u_role = CUSTOMER, u_point = 10000\<rparr>"
  let ?b = "orderBody 1 None (Some 20000)"
  have h: "calculateUserPointBalance 7 1000 (points seedDb) < pointsRequested ?b
        \<and> 0 < b_quantity ?b
        \<and> find (\<lambda>tt. tt_id tt = b_ticketTypeId ?b) (ticketTypes seedDb) = Some ?tt
        \<and> tt_eventId ?tt = 1
        \<and> find (\<lambda>e. ev_id e = 1) (events seedDb) = Some ?ev
        \<and> \<not> ownEvent seedDb 7 ?ev
        \<and> b_quantity ?b \<le> tt_availableSeat ?tt
        \<and> applyVoucher seedDb 1000 1 (b_voucherCode ?b) (tt_price ?tt * b_quantity ?b)
            = Inr (0, None)
        \<and> applyCoupon seedDb 1000 7 (b_couponCode ?b) (tt_price ?tt * b_quantity ?b - 0)
            = Inr (0, None)
        \<and> find (\<lambda>u. u_id u = 7) (users seedDb) = Some ?u"
    by code_simp
  from th [of seedDb 1000 7 1 ?b _ _ ?tt ?ev 0 None 0 None ?u] h
  have f: "createTransaction seedDb 1000 7 1 ?b
             = (Inl (ApiError ''Insufficient valid points'' 400), seedDb)"
    by blast
  show ?thesis
    by (rule exI [of _ t], rule exI [of _ db']) (simp add: r t u1 p1 f)
qed

text \<open>
  The claim as stated fails. With a balance of 10000, a request for 20000 points is
  refused with the insufficient-points error where the claim has it succeed with the
  points clamped to the balance. And with a voucher of 150 percent on a subtotal of
  100000 the minimum is -50000, which is stored as \<open>pointsUsed\<close>, while no point is
  applied: users and ledger are unchanged.
\<close>

theorem createTransaction_points_counterexample:
  "calculateUserPointBalance 7 1000 (points seedDb) = 10000
   \<and> pointsRequested (orderBody 1 None (Some 20000)) = 20000
   \<and> fst (createTransaction seedDb 1000 7 1 (orderBody 1 None (Some 20000)))
       = Inl (ApiError ''Insufficient valid points'' 400)
   \<and> map (\<lambda>v. voucherDiscountOf 100000 v) (vouchers generousDb) = [150000]
   \<and> map_sum id (\<lambda>t. (t_totalPrice t, t_pointsUsed t, t_finalPrice t))
        (fst (createTransaction generousDb 1000 7 1
                (orderBody 1 (Some ''PROMO150'') (Some 1000))))
       = Inr (100000, - 50000, 0)
   \<and> users (snd (createTransaction generousDb 1000 7 1
                    (orderBody 1 (Some ''PROMO150'') (Some 1000)))) = users generousDb
   \<and> points (snd (createTransaction generousDb 1000 7 1
                     (orderBody 1 (Some ''PROMO150'') (Some 1000)))) = points generousDb"
  by code_simp

end
